theory Spec2Isabelle
  imports Complex_Main "HOL-Library.Multiset"
begin

section \<open>Numbers\<close>

text \<open>
  The program computes with \<^verbatim>\<open>double\<close>. In the values the program prints and in the
  results stated for \<^verbatim>\<open>area()\<close> and \<^verbatim>\<open>perimeter()\<close>, a finite \<^verbatim>\<open>double\<close> is
  modelled by the real number it stands for and arithmetic on finite values is exact:
  rounding and overflow are not represented there. The two places where the program
  leaves the finite numbers from finite operands are represented: \<^verbatim>\<open>sqrt\<close> of a
  negative number (not-a-number) and division by zero (an infinity, or not-a-number for
  \<^verbatim>\<open>0.0 / 0\<close>). The comparison of two areas in the call of \<^verbatim>\<open>sort\<close> is taken on
  the doubles the machine computes, rounding included: see the section on doubles as
  the machine computes them. The counter \<^verbatim>\<open>unsigned totalPolygons\<close> is a natural
  number (files of fewer than \<open>2 ^ 32\<close> lines).
\<close>

datatype double = Finite real | PlusInf | MinusInf | NaN

text \<open>\<^verbatim>\<open>x < y\<close> on doubles: every comparison with not-a-number is false.\<close>

fun dless :: "double \<Rightarrow> double \<Rightarrow> bool" where
  "dless NaN y = False"
| "dless x NaN = False"
| "dless (Finite x) (Finite y) = (x < y)"
| "dless (Finite x) PlusInf = True"
| "dless (Finite x) MinusInf = False"
| "dless PlusInf y = False"
| "dless MinusInf MinusInf = False"
| "dless MinusInf y = True"

text \<open>\<^verbatim>\<open>x <= y\<close> on doubles, used to state that a sequence ascends.\<close>

fun dle :: "double \<Rightarrow> double \<Rightarrow> bool" where
  "dle NaN y = False"
| "dle x NaN = False"
| "dle (Finite x) (Finite y) = (x \<le> y)"
| "dle (Finite x) PlusInf = True"
| "dle (Finite x) MinusInf = False"
| "dle PlusInf PlusInf = True"
| "dle PlusInf y = False"
| "dle MinusInf y = True"

text \<open>\<^verbatim>\<open>sqrt(x)\<close> of \<^verbatim>\<open><cmath>\<close> on a finite argument.\<close>

definition dsqrt :: "real \<Rightarrow> double" where
  "dsqrt x = (if x < 0 then NaN else Finite (sqrt x))"

text \<open>\<^verbatim>\<open>k * d\<close> for a finite positive constant \<open>k\<close>.\<close>

fun dscale :: "real \<Rightarrow> double \<Rightarrow> double" where
  "dscale k (Finite x) = Finite (k * x)"
| "dscale k d = d"

text \<open>\<^verbatim>\<open>x / y\<close> on finite doubles: the quotient, and for a zero divisor the values
  of IEEE 754.\<close>

definition ddiv :: "real \<Rightarrow> real \<Rightarrow> double" where
  "ddiv x y =
     (if y = 0 then (if x = 0 then NaN else if 0 < x then PlusInf else MinusInf)
      else Finite (x / y))"

section \<open>Doubles as the machine computes them\<close>

text \<open>
  Where the program compares two doubles the rounding decides which way the comparison
  goes, so the comparison of areas is taken on the values the machine computes: IEEE 754
  binary64, every operation rounded to the nearest double, a tie to the one with the even
  significand. A \<open>Finite\<close> value here is always a double. The sign of zero is not kept:
  no comparison depends on it.
\<close>

text \<open>The nearest integer, a tie to the even one.\<close>

definition round_even :: "real \<Rightarrow> int" where
  "round_even y =
     (let f = \<lfloor>y\<rfloor>
      in if y - of_int f < 1 / 2 then f
         else if 1 / 2 < y - of_int f then f + 1
         else if even f then f else f + 1)"

text \<open>The exponent of the last place of the doubles around \<open>x\<close>: 53 significant bits,
  and no exponent under that of the subnormal numbers.\<close>

definition ulp_exponent :: "real \<Rightarrow> int" where
  "ulp_exponent x = max (\<lfloor>log 2 \<bar>x\<bar>\<rfloor> - 52) (- 1074)"

definition overflow_threshold :: real where
  "overflow_threshold = 2 ^ 1024"

text \<open>The double nearest to a real number; an infinity when the rounded value is out of
  range.\<close>

definition to_double :: "real \<Rightarrow> double" where
  "to_double x =
     (if x = 0 then Finite 0
      else
        (let u = ulp_exponent x;
             y = of_int (round_even (x / 2 powi u)) * 2 powi u
         in if overflow_threshold \<le> \<bar>y\<bar> then (if 0 < x then PlusInf else MinusInf)
            else Finite y))"

definition max_double :: real where
  "max_double = (2 ^ 53 - 1) * 2 ^ 971"

text \<open>The double a field holds when the number read for it is \<open>x\<close>: the nearest double,
  and the largest finite double of that sign when \<open>x\<close> is out of range.\<close>

definition stored :: "real \<Rightarrow> double" where
  "stored x =
     (case to_double x of
        PlusInf \<Rightarrow> Finite max_double
      | MinusInf \<Rightarrow> Finite (- max_double)
      | d \<Rightarrow> d)"

text \<open>\<^verbatim>\<open>-x\<close>, \<^verbatim>\<open>x + y\<close>, \<^verbatim>\<open>x - y\<close>, \<^verbatim>\<open>x * y\<close> and \<^verbatim>\<open>sqrt(x)\<close> on doubles.\<close>

fun fneg :: "double \<Rightarrow> double" where
  "fneg (Finite x) = Finite (- x)"
| "fneg PlusInf = MinusInf"
| "fneg MinusInf = PlusInf"
| "fneg NaN = NaN"

fun fadd :: "double \<Rightarrow> double \<Rightarrow> double" where
  "fadd NaN y = NaN"
| "fadd x NaN = NaN"
| "fadd (Finite x) (Finite y) = to_double (x + y)"
| "fadd (Finite x) y = y"
| "fadd x (Finite y) = x"
| "fadd PlusInf PlusInf = PlusInf"
| "fadd MinusInf MinusInf = MinusInf"
| "fadd PlusInf MinusInf = NaN"
| "fadd MinusInf PlusInf = NaN"

definition fsub :: "double \<Rightarrow> double \<Rightarrow> double" where
  "fsub x y = fadd x (fneg y)"

fun fmul :: "double \<Rightarrow> double \<Rightarrow> double" where
  "fmul NaN y = NaN"
| "fmul x NaN = NaN"
| "fmul (Finite x) (Finite y) = to_double (x * y)"
| "fmul (Finite x) PlusInf = (if x = 0 then NaN else if 0 < x then PlusInf else MinusInf)"
| "fmul (Finite x) MinusInf = (if x = 0 then NaN else if 0 < x then MinusInf else PlusInf)"
| "fmul PlusInf (Finite y) = (if y = 0 then NaN else if 0 < y then PlusInf else MinusInf)"
| "fmul MinusInf (Finite y) = (if y = 0 then NaN else if 0 < y then MinusInf else PlusInf)"
| "fmul PlusInf PlusInf = PlusInf"
| "fmul MinusInf MinusInf = PlusInf"
| "fmul PlusInf MinusInf = MinusInf"
| "fmul MinusInf PlusInf = MinusInf"

fun fsqrt :: "double \<Rightarrow> double" where
  "fsqrt (Finite x) = (if x < 0 then NaN else to_double (sqrt x))"
| "fsqrt PlusInf = PlusInf"
| "fsqrt MinusInf = NaN"
| "fsqrt NaN = NaN"

section \<open>The shape classes\<close>

text \<open>
  An object is its most derived class with the values of all its fields, inherited ones
  included: \<^verbatim>\<open>Polygon::nSides\<close> first, then the fields of the class itself. A
  \<^verbatim>\<open>Square\<close> object has the fields of its base \<^verbatim>\<open>Rectangle\<close>.
\<close>

datatype shape =
    CircleObj real
  | RectangleObj int real real
  | SquareObj int real real
  | TriangleObj int real real real

text \<open>The constructors. \<^verbatim>\<open>Polygon\<close> initialises \<^verbatim>\<open>nSides\<close> to 0; the bodies of the
  constructors of \<^verbatim>\<open>Rectangle\<close> and \<^verbatim>\<open>Triangle\<close> overwrite it. \<^verbatim>\<open>Square(side)\<close> runs
  \<^verbatim>\<open>Rectangle(side, side)\<close> and adds nothing.\<close>

definition Circle :: "real \<Rightarrow> shape" where
  "Circle r = CircleObj r"

definition Rectangle :: "real \<Rightarrow> real \<Rightarrow> shape" where
  "Rectangle l w = RectangleObj 4 l w"

definition Square :: "real \<Rightarrow> shape" where
  "Square side = SquareObj 4 side side"

definition Triangle :: "real \<Rightarrow> real \<Rightarrow> real \<Rightarrow> shape" where
  "Triangle a b c = TriangleObj 3 a b c"

text \<open>The member functions, class by class.\<close>

definition Circle_area :: "real \<Rightarrow> double" where
  "Circle_area radius = Finite (3.14159 * radius * radius)"

definition Circle_perimeter :: "real \<Rightarrow> real" where
  "Circle_perimeter radius = 2 * 3.14159 * radius"

definition Rectangle_area :: "real \<Rightarrow> real \<Rightarrow> double" where
  "Rectangle_area l w = Finite (l * w)"

definition Rectangle_perimeter :: "real \<Rightarrow> real \<Rightarrow> real" where
  "Rectangle_perimeter l w = 2 * (l + w)"

definition Triangle_area :: "real \<Rightarrow> real \<Rightarrow> real \<Rightarrow> double" where
  "Triangle_area a b c =
     dscale 0.25 (dsqrt ((a + b + c) * (- a + b + c) * (a - b + c) * (a + b - c)))"

definition Triangle_perimeter :: "real \<Rightarrow> real \<Rightarrow> real \<Rightarrow> real" where
  "Triangle_perimeter a b c = a + b + c"

text \<open>The virtual calls \<^verbatim>\<open>shape->area()\<close> and \<^verbatim>\<open>shape->perimeter()\<close>: \<^verbatim>\<open>Square\<close>
  overrides neither and inherits both from \<^verbatim>\<open>Rectangle\<close>.\<close>

fun area :: "shape \<Rightarrow> double" where
  "area (CircleObj r) = Circle_area r"
| "area (RectangleObj n l w) = Rectangle_area l w"
| "area (SquareObj n l w) = Rectangle_area l w"
| "area (TriangleObj n a b c) = Triangle_area a b c"

fun perimeter :: "shape \<Rightarrow> real" where
  "perimeter (CircleObj r) = Circle_perimeter r"
| "perimeter (RectangleObj n l w) = Rectangle_perimeter l w"
| "perimeter (SquareObj n l w) = Rectangle_perimeter l w"
| "perimeter (TriangleObj n a b c) = Triangle_perimeter a b c"

text \<open>
  \<^verbatim>\<open>shape->area()\<close> as the machine computes it: the fields are the doubles read from
  the file, the literals are rounded to doubles, and the operations are taken from left
  to right as the expressions of \<^verbatim>\<open>area()\<close> are written. \<open>area\<close> above is the value of
  the same expressions in exact arithmetic.
\<close>

definition Circle_area_fp :: "real \<Rightarrow> double" where
  "Circle_area_fp radius = fmul (fmul (to_double 3.14159) (stored radius)) (stored radius)"

definition Rectangle_area_fp :: "real \<Rightarrow> real \<Rightarrow> double" where
  "Rectangle_area_fp l w = fmul (stored l) (stored w)"

definition Triangle_area_fp :: "real \<Rightarrow> real \<Rightarrow> real \<Rightarrow> double" where
  "Triangle_area_fp a b c =
     (let x = stored a; y = stored b; z = stored c
      in fmul (to_double 0.25)
           (fsqrt (fmul (fmul (fmul (fadd (fadd x y) z) (fadd (fadd (fneg x) y) z))
                              (fadd (fsub x y) z))
                        (fsub (fadd x y) z))))"

fun area_fp :: "shape \<Rightarrow> double" where
  "area_fp (CircleObj r) = Circle_area_fp r"
| "area_fp (RectangleObj n l w) = Rectangle_area_fp l w"
| "area_fp (SquareObj n l w) = Rectangle_area_fp l w"
| "area_fp (TriangleObj n a b c) = Triangle_area_fp a b c"

text \<open>\<^verbatim>\<open>dynamic_pointer_cast<Polygon>(shape)\<close>: the cast succeeds for the classes derived
  from \<^verbatim>\<open>Polygon\<close>, and the result gives access to \<^verbatim>\<open>nSides\<close>.\<close>

fun as_Polygon :: "shape \<Rightarrow> int option" where
  "as_Polygon (CircleObj r) = None"
| "as_Polygon (RectangleObj n l w) = Some n"
| "as_Polygon (SquareObj n l w) = Some n"
| "as_Polygon (TriangleObj n a b c) = Some n"

text \<open>\<^verbatim>\<open>typeid(*shape).name()\<close>, with the names of the compiler the offset 6 of
  \<^verbatim>\<open>operator<<\<close> is written for (\<^verbatim>\<open>class \<close> and the class name).\<close>

fun typeid_name :: "shape \<Rightarrow> string" where
  "typeid_name (CircleObj r) = ''class Circle''"
| "typeid_name (RectangleObj n l w) = ''class Rectangle''"
| "typeid_name (SquareObj n l w) = ''class Square''"
| "typeid_name (TriangleObj n a b c) = ''class Triangle''"

section \<open>Reading a line\<close>

text \<open>
  \<^verbatim>\<open>stringstream ss(line)\<close> with the two formatted reads the loader uses. They belong to
  the C++ standard library, not to this program, and are modelled after the standard:
  a read on a stream that is not \<^verbatim>\<open>good()\<close>, or that finds only white space, sets
  \<^verbatim>\<open>failbit\<close> and leaves the variable as it was; a read of a \<^verbatim>\<open>double\<close> that finds no
  number stores 0 and sets \<^verbatim>\<open>failbit\<close>; a number that ends with the line sets
  \<^verbatim>\<open>eofbit\<close>. Numbers are decimal: an optional sign, digits with an optional point,
  an optional exponent.
\<close>

record stringstream =
  chars :: string
  failbit :: bool
  eofbit :: bool

definition good :: "stringstream \<Rightarrow> bool" where
  "good ss = (\<not> failbit ss \<and> \<not> eofbit ss)"

definition isspace :: "char \<Rightarrow> bool" where
  "isspace ch = (of_char ch = (32::nat) \<or> (9 \<le> (of_char ch :: nat) \<and> of_char ch \<le> (13::nat)))"

definition isdigit :: "char \<Rightarrow> bool" where
  "isdigit ch = (48 \<le> (of_char ch :: nat) \<and> of_char ch \<le> (57::nat))"

definition digits_val :: "string \<Rightarrow> nat" where
  "digits_val ds = foldl (\<lambda>n d. 10 * n + (of_char d - 48)) 0 ds"

definition take_sign :: "string \<Rightarrow> bool \<times> string" where
  "take_sign s =
     (case s of
        [] \<Rightarrow> (False, [])
      | ch # r \<Rightarrow>
          if ch = CHR ''-'' then (True, r)
          else if ch = CHR ''+'' then (False, r)
          else (False, s))"

definition with_sign :: "bool \<Rightarrow> real \<Rightarrow> real" where
  "with_sign neg x = (if neg then - x else x)"

text \<open>The number at the head of a string and the characters after it; \<open>None\<close> when the
  characters do not make a number.\<close>

definition num_get :: "string \<Rightarrow> real option \<times> string" where
  "num_get s =
     (let (neg, s1) = take_sign s;
          ip = takeWhile isdigit s1;
          s2 = dropWhile isdigit s1;
          (fp, s3) =
            (case s2 of
               [] \<Rightarrow> ([], [])
             | ch # r \<Rightarrow>
                 if ch = CHR ''.'' then (takeWhile isdigit r, dropWhile isdigit r)
                 else ([], s2));
          mant = real (digits_val ip) + real (digits_val fp) / 10 ^ length fp
      in if ip = [] \<and> fp = [] then (None, s3)
         else
           (case s3 of
              [] \<Rightarrow> (Some (with_sign neg mant), [])
            | ch # r \<Rightarrow>
                if ch = CHR ''e'' \<or> ch = CHR ''E'' then
                  (let (eneg, s4) = take_sign r;
                       ed = takeWhile isdigit s4;
                       s5 = dropWhile isdigit s4
                   in if ed = [] then (None, s5)
                      else if eneg then (Some (with_sign neg (mant / 10 ^ digits_val ed)), s5)
                      else (Some (with_sign neg (mant * 10 ^ digits_val ed)), s5))
                else (Some (with_sign neg mant), s3)))"

text \<open>\<^verbatim>\<open>ss >> v\<close> for a \<^verbatim>\<open>char\<close> and for a \<^verbatim>\<open>double\<close>: the second argument is the
  value the variable holds before the read, the result its value after the read and the
  stream after the read.\<close>

definition extract_char :: "stringstream \<Rightarrow> char \<Rightarrow> char \<times> stringstream" where
  "extract_char ss v =
     (if \<not> good ss then (v, ss\<lparr>failbit := True\<rparr>)
      else
        (case dropWhile isspace (chars ss) of
           [] \<Rightarrow> (v, ss\<lparr>chars := [], failbit := True, eofbit := True\<rparr>)
         | ch # r \<Rightarrow> (ch, ss\<lparr>chars := r\<rparr>)))"

definition extract_double :: "stringstream \<Rightarrow> real \<Rightarrow> real \<times> stringstream" where
  "extract_double ss v =
     (if \<not> good ss then (v, ss\<lparr>failbit := True\<rparr>)
      else
        (case dropWhile isspace (chars ss) of
           [] \<Rightarrow> (v, ss\<lparr>chars := [], failbit := True, eofbit := True\<rparr>)
         | ch # r \<Rightarrow>
             (case num_get (ch # r) of
                (None, rest) \<Rightarrow> (0, ss\<lparr>chars := rest, failbit := True, eofbit := (rest = [])\<rparr>)
              | (Some x, rest) \<Rightarrow> (x, ss\<lparr>chars := rest, eofbit := (rest = [])\<rparr>))))"

section \<open>loadList\<close>

text \<open>
  The body of the \<^verbatim>\<open>while (getline(infile, line))\<close> loop declares \<^verbatim>\<open>shapeType\<close>,
  \<^verbatim>\<open>a\<close>, \<^verbatim>\<open>b\<close> and \<^verbatim>\<open>c\<close> without initialising them. What they hold when an iteration
  starts is not fixed by the program; it is an input of the model, one record per
  iteration.
\<close>

record locals =
  shapeType0 :: char
  a0 :: real
  b0 :: real
  c0 :: real

text \<open>What the loader has produced so far: the vector \<^verbatim>\<open>shapes\<close> and the lines written
  to \<^verbatim>\<open>cerr\<close>.\<close>

record loader =
  shapes :: "shape list"
  cerr :: "string list"

definition push_back :: "shape \<Rightarrow> loader \<Rightarrow> loader" where
  "push_back s st = st\<lparr>shapes := shapes st @ [s]\<rparr>"

definition loop_body :: "locals \<Rightarrow> string \<Rightarrow> loader \<Rightarrow> loader" where
  "loop_body u line st =
     (let (shapeType, ss) =
            extract_char \<lparr>chars = line, failbit = False, eofbit = False\<rparr> (shapeType0 u)
      in if shapeType = CHR ''C'' then
           (let (a, ss1) = extract_double ss (a0 u)
            in push_back (Circle a) st)
         else if shapeType = CHR ''T'' then
           (let (a, ss1) = extract_double ss (a0 u);
                (b, ss2) = extract_double ss1 (b0 u);
                (c, ss3) = extract_double ss2 (c0 u)
            in push_back (Triangle a b c) st)
         else if shapeType = CHR ''R'' then
           (let (a, ss1) = extract_double ss (a0 u);
                (b, ss2) = extract_double ss1 (b0 u)
            in push_back (Rectangle a b) st)
         else if shapeType = CHR ''S'' then
           (let (a, ss1) = extract_double ss (a0 u)
            in push_back (Square a) st)
         else st\<lparr>cerr := cerr st @ [''Unknown shape: '' @ [shapeType]]\<rparr>)"

text \<open>The loop over the lines of the file; \<open>indet i\<close> are the locals at the start of
  iteration \<open>i\<close>.\<close>

fun getline_loop :: "(nat \<Rightarrow> locals) \<Rightarrow> string list \<Rightarrow> loader \<Rightarrow> loader" where
  "getline_loop indet [] st = st"
| "getline_loop indet (line # rest) st =
     getline_loop (\<lambda>i. indet (Suc i)) rest (loop_body (indet 0) line st)"

definition EXIT_FAILURE :: int where
  "EXIT_FAILURE = 1"

text \<open>A file is the list of its lines, or \<open>None\<close> when it cannot be opened. The result is
  \<open>Inl\<close> the status of \<^verbatim>\<open>exit\<close>, or \<open>Inr\<close> the loader's state on return.\<close>

definition loadList :: "(nat \<Rightarrow> locals) \<Rightarrow> string list option \<Rightarrow> shape list \<Rightarrow> int + loader" where
  "loadList indet infile shapes_in =
     (case infile of
        None \<Rightarrow> Inl EXIT_FAILURE
      | Some file_lines \<Rightarrow> Inr (getline_loop indet file_lines \<lparr>shapes = shapes_in, cerr = []\<rparr>))"

section \<open>main\<close>

text \<open>The three accumulators of \<^verbatim>\<open>main\<close> and the body of its first loop.\<close>

record totals =
  totalPolygons :: nat
  totalPolygonSides :: real
  totalPerimeter :: real

definition accumulate :: "shape \<Rightarrow> totals \<Rightarrow> totals" where
  "accumulate s t =
     (let t1 = t\<lparr>totalPerimeter := totalPerimeter t + perimeter s\<rparr>
      in case as_Polygon s of
           None \<Rightarrow> t1
         | Some nSides \<Rightarrow>
             t1\<lparr>totalPolygons := totalPolygons t1 + 1,
                totalPolygonSides := totalPolygonSides t1 + real_of_int nSides\<rparr>)"

definition aggregate :: "shape list \<Rightarrow> totals" where
  "aggregate xs =
     fold accumulate xs \<lparr>totalPolygons = 0, totalPolygonSides = 0, totalPerimeter = 0\<rparr>"

text \<open>The comparison passed to \<^verbatim>\<open>sort\<close>, \<^verbatim>\<open>a->area() < b->area()\<close>: it compares the
  two doubles the calls return.\<close>

definition area_less :: "shape \<Rightarrow> shape \<Rightarrow> bool" where
  "area_less a b = dless (area_fp a) (area_fp b)"

text \<open>Standard output, line by line. A number is kept as the value that is printed, not
  as its digits.\<close>

datatype out_line =
    ShapeLine string
  | BlankLine
  | TotalShapes nat
  | TotalPerimeter real
  | TotalPolygons nat
  | AveragePolygonSides double

record run =
  exit_status :: int
  cout :: "out_line list"
  cerr_lines :: "string list"

text \<open>
  \<^verbatim>\<open>main\<close>. The call of \<^verbatim>\<open>sort\<close> on the whole vector, with the lambda that compares
  areas, is a call of the standard library: \<open>std_sort\<close> is the library's function, a
  parameter of the model. The vector keeps its size under \<^verbatim>\<open>sort\<close>, so
  \<^verbatim>\<open>shapes.size()\<close> is the length of the sorted sequence.
\<close>

definition main :: "((shape \<Rightarrow> shape \<Rightarrow> bool) \<Rightarrow> shape list \<Rightarrow> shape list) \<Rightarrow>
    (nat \<Rightarrow> locals) \<Rightarrow> string list option \<Rightarrow> run" where
  "main std_sort indet infile =
     (case loadList indet infile [] of
        Inl status \<Rightarrow> \<lparr>exit_status = status, cout = [], cerr_lines = []\<rparr>
      | Inr st \<Rightarrow>
          (let sorted_shapes = std_sort area_less (shapes st);
               t = aggregate sorted_shapes
           in \<lparr>exit_status = 0,
                cout = map (\<lambda>s. ShapeLine (drop 6 (typeid_name s))) sorted_shapes @
                  [BlankLine,
                   TotalShapes (length sorted_shapes),
                   TotalPerimeter (totalPerimeter t),
                   TotalPolygons (totalPolygons t),
                   AveragePolygonSides (ddiv (totalPolygonSides t) (real (totalPolygons t)))],
                cerr_lines = cerr st\<rparr>))"

section \<open>The contract of the library's sort\<close>

text \<open>
  The C++ standard requires of \<^verbatim>\<open>cmp\<close> a strict weak ordering on the values sorted:
  irreflexive, transitive, and with a transitive equivalence
  \<^verbatim>\<open>!cmp(a, b) && !cmp(b, a)\<close>. It then promises a rearrangement of the range in which
  no element is less than an earlier one. It promises nothing on the order of equivalent
  elements, and nothing at all when \<^verbatim>\<open>cmp\<close> is not such an ordering.
\<close>

definition equiv_by :: "('a \<Rightarrow> 'a \<Rightarrow> bool) \<Rightarrow> 'a \<Rightarrow> 'a \<Rightarrow> bool" where
  "equiv_by cmp x y = (\<not> cmp x y \<and> \<not> cmp y x)"

definition strict_weak_ordering_on :: "'a set \<Rightarrow> ('a \<Rightarrow> 'a \<Rightarrow> bool) \<Rightarrow> bool" where
  "strict_weak_ordering_on S cmp =
     ((\<forall>x\<in>S. \<not> cmp x x) \<and>
      (\<forall>x\<in>S. \<forall>y\<in>S. \<forall>z\<in>S. cmp x y \<and> cmp y z \<longrightarrow> cmp x z) \<and>
      (\<forall>x\<in>S. \<forall>y\<in>S. \<forall>z\<in>S. equiv_by cmp x y \<and> equiv_by cmp y z \<longrightarrow> equiv_by cmp x z))"

definition std_sort_contract :: "(('a \<Rightarrow> 'a \<Rightarrow> bool) \<Rightarrow> 'a list \<Rightarrow> 'a list) \<Rightarrow> bool" where
  "std_sort_contract srt =
     (\<forall>cmp xs. strict_weak_ordering_on (set xs) cmp \<longrightarrow>
        mset (srt cmp xs) = mset xs \<and> sorted_wrt (\<lambda>x y. \<not> cmp y x) (srt cmp xs))"

text \<open>A sort that meets the contract: insertion from the right end of the input.\<close>

fun insert_by :: "('a \<Rightarrow> 'a \<Rightarrow> bool) \<Rightarrow> 'a \<Rightarrow> 'a list \<Rightarrow> 'a list" where
  "insert_by cmp x [] = [x]"
| "insert_by cmp x (y # ys) = (if cmp y x then y # insert_by cmp x ys else x # y # ys)"

definition insertion_sort :: "('a \<Rightarrow> 'a \<Rightarrow> bool) \<Rightarrow> 'a list \<Rightarrow> 'a list" where
  "insertion_sort cmp xs = foldr (insert_by cmp) xs []"

text \<open>A sort is stable on an input when the elements equivalent to any one element come
  out in the order they went in.\<close>

definition stable_on :: "('a \<Rightarrow> 'a \<Rightarrow> bool) \<Rightarrow> 'a list \<Rightarrow> 'a list \<Rightarrow> bool" where
  "stable_on cmp xs ys =
     list_all (\<lambda>x. filter (equiv_by cmp x) ys = filter (equiv_by cmp x) xs) xs"

section \<open>The sort of the GNU C++ library\<close>

text \<open>
  \<^verbatim>\<open>std::sort\<close> as the GNU C++ library implements it (\<^verbatim>\<open>bits/stl_algo.h\<close> and
  \<^verbatim>\<open>bits/stl_heap.h\<close>), function by function, on a list with the iterators as indices:
  \<^verbatim>\<open>first\<close> is the index of the first element of a range and \<^verbatim>\<open>last'\<close> the index after
  its last. A range of more than 16 elements is partitioned around the median of three
  of its elements, down to pieces of at most 16 elements (a piece that is still longer
  when the depth limit is used up is sorted as a heap); a final pass of insertions
  finishes the whole range.
\<close>

text \<open>\<^verbatim>\<open>std::iter_swap(i, j)\<close>.\<close>

definition iter_swap :: "nat \<Rightarrow> nat \<Rightarrow> 'a list \<Rightarrow> 'a list" where
  "iter_swap i j xs = xs[i := xs ! j, j := xs ! i]"

text \<open>\<^verbatim>\<open>__move_median_to_first(result, a, b, c, comp)\<close>.\<close>

definition move_median_to_first ::
    "('a \<Rightarrow> 'a \<Rightarrow> bool) \<Rightarrow> nat \<Rightarrow> nat \<Rightarrow> nat \<Rightarrow> nat \<Rightarrow> 'a list \<Rightarrow> 'a list" where
  "move_median_to_first cmp result a b c xs =
     (if cmp (xs ! a) (xs ! b) then
        (if cmp (xs ! b) (xs ! c) then iter_swap result b xs
         else if cmp (xs ! a) (xs ! c) then iter_swap result c xs
         else iter_swap result a xs)
      else if cmp (xs ! a) (xs ! c) then iter_swap result a xs
      else if cmp (xs ! b) (xs ! c) then iter_swap result c xs
      else iter_swap result b xs)"

text \<open>
  The two inner loops of \<^verbatim>\<open>__unguarded_partition\<close>:
  \<^verbatim>\<open>while (comp(first, pivot)) ++first;\<close> and \<^verbatim>\<open>while (comp(pivot, last)) --last;\<close>.
  The library's loops have no bound of their own; they stop inside the range when the
  comparison is a strict weak ordering. Here they also stop at the ends of the list.
\<close>

function scan_up :: "('a \<Rightarrow> 'a \<Rightarrow> bool) \<Rightarrow> 'a list \<Rightarrow> nat \<Rightarrow> nat \<Rightarrow> nat" where
  "scan_up cmp xs pivot first =
     (if first < length xs \<and> cmp (xs ! first) (xs ! pivot)
      then scan_up cmp xs pivot (Suc first) else first)"
  by pat_completeness auto
termination
  by (relation "measure (\<lambda>(cmp, xs, pivot, first). length xs - first)") auto

declare scan_up.simps [simp del]

function scan_down :: "('a \<Rightarrow> 'a \<Rightarrow> bool) \<Rightarrow> 'a list \<Rightarrow> nat \<Rightarrow> nat \<Rightarrow> nat" where
  "scan_down cmp xs pivot last' =
     (if 0 < last' \<and> cmp (xs ! pivot) (xs ! last')
      then scan_down cmp xs pivot (last' - 1) else last')"
  by pat_completeness auto
termination
  by (relation "measure (\<lambda>(cmp, xs, pivot, last'). last')") auto

declare scan_down.simps [simp del]

text \<open>\<^verbatim>\<open>__unguarded_partition(first, last, pivot, comp)\<close>: the index of the cut, and the
  list as the swaps leave it.\<close>

function unguarded_partition ::
    "('a \<Rightarrow> 'a \<Rightarrow> bool) \<Rightarrow> nat \<Rightarrow> nat \<Rightarrow> nat \<Rightarrow> 'a list \<Rightarrow> nat \<times> 'a list" where
  "unguarded_partition cmp first last' pivot xs =
     (if \<not> scan_up cmp xs pivot first < scan_down cmp xs pivot (last' - 1)
      then (scan_up cmp xs pivot first, xs)
      else unguarded_partition cmp (Suc (scan_up cmp xs pivot first))
             (scan_down cmp xs pivot (last' - 1)) pivot
             (iter_swap (scan_up cmp xs pivot first) (scan_down cmp xs pivot (last' - 1)) xs))"
  by pat_completeness auto
termination
proof (relation "measure (\<lambda>(cmp, first, last', pivot, xs). last' - first)", goal_cases)
  case 1
  show ?case by simp
next
  case (2 cmp first last' pivot xs)
  have up: "i \<le> scan_up c ys p i" for c :: "'a \<Rightarrow> 'a \<Rightarrow> bool" and ys p i
  proof (induction c ys p i rule: scan_up.induct)
    case (1 c ys p i)
    show ?case
    proof (cases "i < length ys \<and> c (ys ! i) (ys ! p)")
      case True
      with 1 have "Suc i \<le> scan_up c ys p (Suc i)" by simp
      moreover from True have "scan_up c ys p i = scan_up c ys p (Suc i)"
        by (subst scan_up.simps) simp
      ultimately show ?thesis by simp
    next
      case False
      then show ?thesis by (subst scan_up.simps) auto
    qed
  qed
  have down: "scan_down c ys p n \<le> n" for c :: "'a \<Rightarrow> 'a \<Rightarrow> bool" and ys p n
  proof (induction c ys p n rule: scan_down.induct)
    case (1 c ys p n)
    show ?case
    proof (cases "0 < n \<and> c (ys ! p) (ys ! n)")
      case True
      with 1 have "scan_down c ys p (n - 1) \<le> n - 1" by simp
      moreover from True have "scan_down c ys p n = scan_down c ys p (n - 1)"
        by (subst scan_down.simps) simp
      ultimately show ?thesis by simp
    next
      case False
      then show ?thesis by (subst scan_down.simps) auto
    qed
  qed
  from up [of first cmp xs pivot] down [of cmp xs pivot "last' - 1"] 2
  show ?case by simp
qed

declare unguarded_partition.simps [simp del]

text \<open>\<^verbatim>\<open>__unguarded_partition_pivot(first, last, comp)\<close>.\<close>

definition unguarded_partition_pivot ::
    "('a \<Rightarrow> 'a \<Rightarrow> bool) \<Rightarrow> nat \<Rightarrow> nat \<Rightarrow> 'a list \<Rightarrow> nat \<times> 'a list" where
  "unguarded_partition_pivot cmp first last' xs =
     (let mid = first + (last' - first) div 2
      in unguarded_partition cmp (first + 1) last' first
           (move_median_to_first cmp first (first + 1) mid (last' - 1) xs))"

text \<open>\<^verbatim>\<open>__push_heap(first, holeIndex, topIndex, value, comp)\<close>.\<close>

function push_heap ::
    "('a \<Rightarrow> 'a \<Rightarrow> bool) \<Rightarrow> nat \<Rightarrow> nat \<Rightarrow> nat \<Rightarrow> 'a \<Rightarrow> 'a list \<Rightarrow> 'a list" where
  "push_heap cmp first holeIndex topIndex val xs =
     (if topIndex < holeIndex \<and> cmp (xs ! (first + (holeIndex - 1) div 2)) val
      then push_heap cmp first ((holeIndex - 1) div 2) topIndex val
             (xs[first + holeIndex := xs ! (first + (holeIndex - 1) div 2)])
      else xs[first + holeIndex := val])"
  by pat_completeness auto
termination
  by (relation "measure (\<lambda>(cmp, first, holeIndex, topIndex, val, xs). holeIndex)") auto

declare push_heap.simps [simp del]

text \<open>The loop of \<^verbatim>\<open>__adjust_heap\<close>, which moves the hole down to a leaf: the values of
  \<^verbatim>\<open>holeIndex\<close> and \<^verbatim>\<open>secondChild\<close> after it, and the list.\<close>

function sift_down ::
    "('a \<Rightarrow> 'a \<Rightarrow> bool) \<Rightarrow> nat \<Rightarrow> nat \<Rightarrow> nat \<Rightarrow> nat \<Rightarrow> 'a list \<Rightarrow> nat \<times> nat \<times> 'a list" where
  "sift_down cmp first len holeIndex secondChild xs =
     (if secondChild < (len - 1) div 2 then
        (let sc = 2 * (secondChild + 1);
             sc' = (if cmp (xs ! (first + sc)) (xs ! (first + (sc - 1))) then sc - 1 else sc)
         in sift_down cmp first len sc' sc' (xs[first + holeIndex := xs ! (first + sc')]))
      else (holeIndex, secondChild, xs))"
  by pat_completeness auto
termination
  by (relation "measure (\<lambda>(cmp, first, len, holeIndex, secondChild, xs). len - secondChild)")
    (auto simp: Let_def)

declare sift_down.simps [simp del]

text \<open>\<^verbatim>\<open>__adjust_heap(first, holeIndex, len, value, comp)\<close>.\<close>

definition adjust_heap ::
    "('a \<Rightarrow> 'a \<Rightarrow> bool) \<Rightarrow> nat \<Rightarrow> nat \<Rightarrow> nat \<Rightarrow> 'a \<Rightarrow> 'a list \<Rightarrow> 'a list" where
  "adjust_heap cmp first holeIndex len val xs =
     (let (hole, secondChild, ys) = sift_down cmp first len holeIndex holeIndex xs
      in if even len \<and> secondChild = (len - 2) div 2 then
           push_heap cmp first (2 * (secondChild + 1) - 1) holeIndex val
             (ys[first + hole := ys ! (first + (2 * (secondChild + 1) - 1))])
         else push_heap cmp first hole holeIndex val ys)"

text \<open>\<^verbatim>\<open>__make_heap\<close>, \<^verbatim>\<open>__pop_heap\<close>, \<^verbatim>\<open>__sort_heap\<close>, \<^verbatim>\<open>__heap_select\<close> and
  \<^verbatim>\<open>__partial_sort\<close>.\<close>

definition make_heap :: "('a \<Rightarrow> 'a \<Rightarrow> bool) \<Rightarrow> nat \<Rightarrow> nat \<Rightarrow> 'a list \<Rightarrow> 'a list" where
  "make_heap cmp first last' xs =
     (if last' - first < 2 then xs
      else fold (\<lambda>parent ys. adjust_heap cmp first parent (last' - first) (ys ! (first + parent)) ys)
             (rev [0 ..< Suc ((last' - first - 2) div 2)]) xs)"

definition pop_heap :: "('a \<Rightarrow> 'a \<Rightarrow> bool) \<Rightarrow> nat \<Rightarrow> nat \<Rightarrow> nat \<Rightarrow> 'a list \<Rightarrow> 'a list" where
  "pop_heap cmp first last' result xs =
     adjust_heap cmp first 0 (last' - first) (xs ! result) (xs[result := xs ! first])"

definition sort_heap :: "('a \<Rightarrow> 'a \<Rightarrow> bool) \<Rightarrow> nat \<Rightarrow> nat \<Rightarrow> 'a list \<Rightarrow> 'a list" where
  "sort_heap cmp first last' xs =
     fold (\<lambda>l ys. pop_heap cmp first l l ys) (rev [Suc first ..< last']) xs"

definition heap_select :: "('a \<Rightarrow> 'a \<Rightarrow> bool) \<Rightarrow> nat \<Rightarrow> nat \<Rightarrow> nat \<Rightarrow> 'a list \<Rightarrow> 'a list" where
  "heap_select cmp first middle last' xs =
     fold (\<lambda>i ys. if cmp (ys ! i) (ys ! first) then pop_heap cmp first middle i ys else ys)
       [middle ..< last'] (make_heap cmp first middle xs)"

definition partial_sort :: "('a \<Rightarrow> 'a \<Rightarrow> bool) \<Rightarrow> nat \<Rightarrow> nat \<Rightarrow> nat \<Rightarrow> 'a list \<Rightarrow> 'a list" where
  "partial_sort cmp first middle last' xs =
     sort_heap cmp first middle (heap_select cmp first middle last' xs)"

text \<open>\<^verbatim>\<open>__introsort_loop(first, last, depth_limit, comp)\<close>: each turn of its loop sorts
  the piece after the cut by a recursive call and goes on with the piece before it.\<close>

primrec introsort_loop ::
    "('a \<Rightarrow> 'a \<Rightarrow> bool) \<Rightarrow> nat \<Rightarrow> nat \<Rightarrow> nat \<Rightarrow> 'a list \<Rightarrow> 'a list" where
  "introsort_loop cmp 0 first last' xs =
     (if 16 < last' - first then partial_sort cmp first last' last' xs else xs)"
| "introsort_loop cmp (Suc depth_limit) first last' xs =
     (if 16 < last' - first then
        (let (cut, ys) = unguarded_partition_pivot cmp first last' xs
         in introsort_loop cmp depth_limit first cut (introsort_loop cmp depth_limit cut last' ys))
      else xs)"

text \<open>\<^verbatim>\<open>__unguarded_linear_insert(last, comp)\<close> and its loop
  \<^verbatim>\<open>while (comp(val, next))\<close>, which here also stops at the start of the list.\<close>

function linear_insert_loop :: "('a \<Rightarrow> 'a \<Rightarrow> bool) \<Rightarrow> 'a \<Rightarrow> nat \<Rightarrow> 'a list \<Rightarrow> 'a list" where
  "linear_insert_loop cmp val last' xs =
     (if 0 < last' \<and> cmp val (xs ! (last' - 1))
      then linear_insert_loop cmp val (last' - 1) (xs[last' := xs ! (last' - 1)])
      else xs[last' := val])"
  by pat_completeness auto
termination
  by (relation "measure (\<lambda>(cmp, val, last', xs). last')") auto

declare linear_insert_loop.simps [simp del]

definition unguarded_linear_insert :: "('a \<Rightarrow> 'a \<Rightarrow> bool) \<Rightarrow> nat \<Rightarrow> 'a list \<Rightarrow> 'a list" where
  "unguarded_linear_insert cmp last' xs = linear_insert_loop cmp (xs ! last') last' xs"

text \<open>\<^verbatim>\<open>std::move_backward(first, i, i + 1)\<close>.\<close>

definition move_backward :: "nat \<Rightarrow> nat \<Rightarrow> 'a list \<Rightarrow> 'a list" where
  "move_backward first i xs = fold (\<lambda>k ys. ys[k := ys ! (k - 1)]) (rev [Suc first ..< Suc i]) xs"

text \<open>\<^verbatim>\<open>__insertion_sort\<close>, \<^verbatim>\<open>__unguarded_insertion_sort\<close> and
  \<^verbatim>\<open>__final_insertion_sort\<close>, with the library's threshold of 16.\<close>

definition gnu_insertion_sort :: "('a \<Rightarrow> 'a \<Rightarrow> bool) \<Rightarrow> nat \<Rightarrow> nat \<Rightarrow> 'a list \<Rightarrow> 'a list" where
  "gnu_insertion_sort cmp first last' xs =
     fold (\<lambda>i ys. if cmp (ys ! i) (ys ! first)
                   then (move_backward first i ys)[first := ys ! i]
                   else unguarded_linear_insert cmp i ys)
       [Suc first ..< last'] xs"

definition unguarded_insertion_sort ::
    "('a \<Rightarrow> 'a \<Rightarrow> bool) \<Rightarrow> nat \<Rightarrow> nat \<Rightarrow> 'a list \<Rightarrow> 'a list" where
  "unguarded_insertion_sort cmp first last' xs =
     fold (unguarded_linear_insert cmp) [first ..< last'] xs"

definition final_insertion_sort ::
    "('a \<Rightarrow> 'a \<Rightarrow> bool) \<Rightarrow> nat \<Rightarrow> nat \<Rightarrow> 'a list \<Rightarrow> 'a list" where
  "final_insertion_sort cmp first last' xs =
     (if 16 < last' - first then
        unguarded_insertion_sort cmp (first + 16) last' (gnu_insertion_sort cmp first (first + 16) xs)
      else gnu_insertion_sort cmp first last' xs)"

text \<open>\<^verbatim>\<open>std::__lg(n)\<close>: the position of the highest bit of \<open>n\<close>.\<close>

fun lg :: "nat \<Rightarrow> nat" where
  "lg n = (if n < 2 then 0 else Suc (lg (n div 2)))"

declare lg.simps [simp del]

text \<open>\<^verbatim>\<open>std::sort(first, last, comp)\<close> on a whole vector.\<close>

definition gnu_sort :: "('a \<Rightarrow> 'a \<Rightarrow> bool) \<Rightarrow> 'a list \<Rightarrow> 'a list" where
  "gnu_sort cmp xs =
     (if xs = [] then xs
      else final_insertion_sort cmp 0 (length xs)
             (introsort_loop cmp (lg (length xs) * 2) 0 (length xs) xs))"

section \<open>Notions used to state the properties\<close>

text \<open>Nothing is left for a read: the stream is not \<^verbatim>\<open>good()\<close>, or only white space
  remains.\<close>

definition at_end :: "stringstream \<Rightarrow> bool" where
  "at_end ss = (\<not> good ss \<or> dropWhile isspace (chars ss) = [])"



section \<open>The loader, line by line\<close>

lemmas lex_defs = extract_char_def extract_double_def good_def isspace_def isdigit_def
  num_get_def take_sign_def digits_val_def with_sign_def

lemma extract_char_code:
  "dropWhile isspace line = ch # rest \<Longrightarrow>
   extract_char \<lparr>chars = line, failbit = False, eofbit = False\<rparr> v =
     (ch, \<lparr>chars = rest, failbit = False, eofbit = False\<rparr>)"
  by (simp add: extract_char_def good_def)

lemma loop_body_default:
  assumes "dropWhile isspace line = ch # rest"
    and "ch \<noteq> CHR ''C''" "ch \<noteq> CHR ''T''" "ch \<noteq> CHR ''R''" "ch \<noteq> CHR ''S''"
  shows "loop_body u line st = st\<lparr>cerr := cerr st @ [''Unknown shape: '' @ [ch]]\<rparr>"
  using assms by (simp add: loop_body_def extract_char_code)

lemma not_isspace_lowercase:
  "ch \<in> {CHR ''c'', CHR ''r'', CHR ''s'', CHR ''t''} \<Longrightarrow> \<not> isspace ch"
  by (auto simp: isspace_def)

lemma getline_loop_append:
  "getline_loop indet (xs @ ys) st =
     getline_loop (\<lambda>i. indet (i + length xs)) ys (getline_loop indet xs st)"
  by (induction xs arbitrary: indet st) simp_all

text \<open>A read of a \<^verbatim>\<open>double\<close>: what it leaves in the variable.\<close>

lemma extract_double_at_end:
  "at_end ss \<Longrightarrow> fst (extract_double ss v) = v \<and> failbit (snd (extract_double ss v))"
  by (auto simp: at_end_def extract_double_def simp del: dropWhile_eq_Nil_conv)

lemma failbit_at_end: "failbit ss \<Longrightarrow> at_end ss"
  by (simp add: at_end_def good_def)

lemma extract_double_failed:
  "failbit (snd (extract_double ss v)) \<Longrightarrow>
   fst (extract_double ss v) = v \<or> fst (extract_double ss v) = 0"
  by (auto simp: extract_double_def good_def simp del: dropWhile_eq_Nil_conv
      split: if_splits list.splits prod.splits option.splits)

lemma extract_double_read:
  "\<not> failbit (snd (extract_double ss v)) \<Longrightarrow>
   fst (num_get (dropWhile isspace (chars ss))) = Some (fst (extract_double ss v))"
  by (auto simp: extract_double_def good_def simp del: dropWhile_eq_Nil_conv
      split: if_splits list.splits prod.splits option.splits)

lemma loop_body_code:
  assumes "dropWhile isspace line = ch # rest"
    and "ch \<in> {CHR ''C'', CHR ''T'', CHR ''R'', CHR ''S''}"
    and "extract_double \<lparr>chars = rest, failbit = False, eofbit = False\<rparr> (a0 u) = (a, ss1)"
    and "extract_double ss1 (b0 u) = (b, ss2)"
    and "extract_double ss2 (c0 u) = (c, ss3)"
  shows "loop_body u line st =
           push_back (if ch = CHR ''C'' then Circle a
                      else if ch = CHR ''T'' then Triangle a b c
                      else if ch = CHR ''R'' then Rectangle a b
                      else Square a) st"
  using assms by (auto simp: loop_body_def extract_char_code)





section \<open>main, unfolded\<close>

lemma exit_status_opened: "exit_status (main srt indet (Some ls)) = 0"
  by (simp add: main_def loadList_def Let_def)

lemma main_not_opened:
  "main srt indet None = \<lparr>exit_status = EXIT_FAILURE, cout = [], cerr_lines = []\<rparr>"
  by (simp add: main_def loadList_def)

lemma cout_opened:
  "\<exists>names n p k avg. cout (main srt indet (Some ls)) =
      names @ [BlankLine, TotalShapes n, TotalPerimeter p, TotalPolygons k,
               AveragePolygonSides avg]"
  by (simp add: main_def loadList_def Let_def)

lemma main_opened:
  "main srt indet (Some ls) =
     (let st = getline_loop indet ls \<lparr>shapes = [], cerr = []\<rparr>;
          ys = srt area_less (shapes st);
          t = aggregate ys
      in \<lparr>exit_status = 0,
           cout = map (\<lambda>s. ShapeLine (drop 6 (typeid_name s))) ys @
             [BlankLine, TotalShapes (length ys), TotalPerimeter (totalPerimeter t),
              TotalPolygons (totalPolygons t),
              AveragePolygonSides (ddiv (totalPolygonSides t) (real (totalPolygons t)))],
           cerr_lines = cerr st\<rparr>)"
  by (simp add: main_def loadList_def Let_def)

section \<open>The aggregation pass\<close>

lemma accumulate_fields:
  "totalPerimeter (accumulate s t) = totalPerimeter t + perimeter s"
  "totalPolygons (accumulate s t) = totalPolygons t + (if as_Polygon s = None then 0 else 1)"
  "totalPolygonSides (accumulate s t) =
     totalPolygonSides t + (case as_Polygon s of None \<Rightarrow> 0 | Some n \<Rightarrow> real_of_int n)"
  by (simp_all add: accumulate_def Let_def split: option.splits)

lemma fold_accumulate:
  "totalPerimeter (fold accumulate ys t) = totalPerimeter t + sum_list (map perimeter ys) \<and>
   totalPolygons (fold accumulate ys t) =
     totalPolygons t + length (filter (\<lambda>s. as_Polygon s \<noteq> None) ys) \<and>
   totalPolygonSides (fold accumulate ys t) =
     totalPolygonSides t +
       sum_list (map (\<lambda>s. case as_Polygon s of None \<Rightarrow> 0 | Some n \<Rightarrow> real_of_int n) ys)"
proof (induction ys arbitrary: t)
  case Nil
  show ?case by simp
next
  case (Cons y ys)
  show ?case
    by (simp add: Cons.IH accumulate_fields)
qed


lemma aggregate_perm:
  assumes "mset ys = mset xs"
  shows "aggregate ys = aggregate xs"
proof -
  have "sum_list (map perimeter ys) = sum_list (map perimeter xs)"
    using assms by (metis mset_map sum_mset_sum_list)
  moreover have "length (filter (\<lambda>s. as_Polygon s \<noteq> None) ys) =
      length (filter (\<lambda>s. as_Polygon s \<noteq> None) xs)"
    using assms by (metis mset_filter size_mset)
  moreover have "sum_list (map (\<lambda>s. case as_Polygon s of None \<Rightarrow> 0 | Some n \<Rightarrow> real_of_int n) ys) =
      sum_list (map (\<lambda>s. case as_Polygon s of None \<Rightarrow> 0 | Some n \<Rightarrow> real_of_int n) xs)"
    using assms by (metis mset_map sum_mset_sum_list)
  ultimately show ?thesis
    using fold_accumulate [of ys] fold_accumulate [of xs]
    by (simp add: aggregate_def totals.equality)
qed

section \<open>Sorts that meet the contract\<close>

lemma swo_asym:
  "strict_weak_ordering_on S cmp \<Longrightarrow> x \<in> S \<Longrightarrow> y \<in> S \<Longrightarrow> cmp x y \<Longrightarrow> \<not> cmp y x"
  unfolding strict_weak_ordering_on_def by blast

lemma swo_le_trans:
  assumes swo: "strict_weak_ordering_on S cmp"
    and mem: "x \<in> S" "y \<in> S" "z \<in> S"
    and xy: "\<not> cmp y x" and yz: "\<not> cmp z y"
  shows "\<not> cmp z x"
proof
  assume zx: "cmp z x"
  from swo mem have tr: "\<And>a b c. a \<in> S \<Longrightarrow> b \<in> S \<Longrightarrow> c \<in> S \<Longrightarrow> cmp a b \<Longrightarrow> cmp b c \<Longrightarrow> cmp a c"
    unfolding strict_weak_ordering_on_def by blast
  from swo have eq: "\<And>a b c. a \<in> S \<Longrightarrow> b \<in> S \<Longrightarrow> c \<in> S \<Longrightarrow>
      equiv_by cmp a b \<Longrightarrow> equiv_by cmp b c \<Longrightarrow> equiv_by cmp a c"
    unfolding strict_weak_ordering_on_def by blast
  have "\<not> cmp x y"
  proof
    assume "cmp x y"
    with zx mem have "cmp z y" by (blast intro: tr)
    with yz show False by simp
  qed
  with xy have e1: "equiv_by cmp x y" by (simp add: equiv_by_def)
  have "\<not> cmp y z"
  proof
    assume "cmp y z"
    with zx mem have "cmp y x" by (blast intro: tr)
    with xy show False by simp
  qed
  with yz have e2: "equiv_by cmp y z" by (simp add: equiv_by_def)
  from eq [OF mem e1 e2] zx show False by (simp add: equiv_by_def)
qed

lemma mset_insert_by: "mset (insert_by cmp x ys) = add_mset x (mset ys)"
  by (induction ys) simp_all

lemma set_insert_by: "set (insert_by cmp x ys) = insert x (set ys)"
  by (induction ys) auto

lemma sorted_insert_by:
  assumes swo: "strict_weak_ordering_on S cmp" and x: "x \<in> S"
  shows "set ys \<subseteq> S \<Longrightarrow> sorted_wrt (\<lambda>a b. \<not> cmp b a) ys \<Longrightarrow>
         sorted_wrt (\<lambda>a b. \<not> cmp b a) (insert_by cmp x ys)"
proof (induction ys)
  case Nil
  then show ?case by simp
next
  case (Cons y ys)
  from Cons.prems have y: "y \<in> S" and ys: "set ys \<subseteq> S"
    and above: "\<forall>z\<in>set ys. \<not> cmp z y" and sorted_ys: "sorted_wrt (\<lambda>a b. \<not> cmp b a) ys"
    by simp_all
  show ?case
  proof (cases "cmp y x")
    case True
    then have "\<not> cmp x y" using swo_asym [OF swo y x] by blast
    with True above Cons.IH [OF ys sorted_ys] show ?thesis
      by (simp add: set_insert_by)
  next
    case False
    have "\<forall>z\<in>set ys. \<not> cmp z x"
    proof
      fix z assume z: "z \<in> set ys"
      with ys have "z \<in> S" by blast
      from swo_le_trans [OF swo x y this False] above z show "\<not> cmp z x" by blast
    qed
    with False above sorted_ys show ?thesis by simp
  qed
qed

lemma foldr_insert_by:
  assumes swo: "strict_weak_ordering_on S cmp"
  shows "set xs \<subseteq> S \<Longrightarrow>
         mset (foldr (insert_by cmp) xs []) = mset xs \<and>
         sorted_wrt (\<lambda>a b. \<not> cmp b a) (foldr (insert_by cmp) xs [])"
proof (induction xs)
  case Nil
  then show ?case by simp
next
  case (Cons x xs)
  from Cons.prems have x: "x \<in> S" and xs: "set xs \<subseteq> S" by simp_all
  from Cons.IH [OF xs] have m: "mset (foldr (insert_by cmp) xs []) = mset xs"
    and s: "sorted_wrt (\<lambda>a b. \<not> cmp b a) (foldr (insert_by cmp) xs [])" by simp_all
  from m have "set (foldr (insert_by cmp) xs []) = set xs" by (rule mset_eq_setD)
  with xs have sub: "set (foldr (insert_by cmp) xs []) \<subseteq> S" by simp
  from sorted_insert_by [OF swo x sub s] m show ?case
    by (simp add: mset_insert_by)
qed

lemma insertion_sort_contract: "std_sort_contract insertion_sort"
  unfolding std_sort_contract_def insertion_sort_def
  using foldr_insert_by by blast

section \<open>Rounding to doubles\<close>

lemma round_even_of_int [simp]: "round_even (of_int n) = n"
  by (simp add: round_even_def)

lemma floor_log2_eq:
  assumes "2 powi e \<le> x" and "x < 2 powi (e + 1)"
  shows "\<lfloor>log 2 x\<rfloor> = e"
proof -
  have "0 < (2::real) powi e" by simp
  with assms(1) have pos: "0 < x" by linarith
  have "(2::real) powr real_of_int e = 2 powi e"
    by (simp add: powr_real_of_int')
  moreover have "(2::real) powr real_of_int (e + 1) = 2 powi (e + 1)"
    by (rule powr_real_of_int') simp_all
  ultimately show ?thesis
    using floor_log_eq_powr_iff [of x 2 e] pos assms by simp
qed

lemma ulp_exponent_eq:
  assumes "2 powi e \<le> \<bar>x\<bar>" and "\<bar>x\<bar> < 2 powi (e + 1)"
  shows "ulp_exponent x = max (e - 52) (- 1074)"
  using floor_log2_eq [OF assms] by (simp add: ulp_exponent_def)

text \<open>Rounding a number whose binary exponent \<open>e\<close> is known.\<close>

lemma to_double_eval:
  assumes "2 powi e \<le> \<bar>x\<bar>" and "\<bar>x\<bar> < 2 powi (e + 1)" and "u = max (e - 52) (- 1074)"
  shows "to_double x =
           (let y = of_int (round_even (x / 2 powi u)) * 2 powi u
            in if overflow_threshold \<le> \<bar>y\<bar> then (if 0 < x then PlusInf else MinusInf)
               else Finite y)"
proof -
  have "0 < (2::real) powi e" by simp
  with assms(1) have "0 < \<bar>x\<bar>" by linarith
  then have "x \<noteq> 0" by simp
  then show ?thesis
    using ulp_exponent_eq [OF assms(1,2)] assms(3) by (simp add: to_double_def Let_def)
qed

lemma to_double_not_NaN [simp]: "to_double x \<noteq> NaN"
  by (simp add: to_double_def Let_def)

lemma stored_Finite: "\<exists>y. stored x = Finite y"
  by (cases "to_double x") (simp_all add: stored_def)

lemma pow2_less_imp_less:
  assumes "(2::real) powi a < 2 powi b"
  shows "a < b"
proof (rule ccontr)
  assume "\<not> a < b"
  then have "b \<le> a" by simp
  then have "(2::real) powi b \<le> 2 powi a" by (intro power_int_increasing) simp_all
  with assms show False by simp
qed

text \<open>A double rounds to itself.\<close>

lemma to_double_representable:
  assumes x: "x = of_int m * 2 powi u" and m: "\<bar>m\<bar> < 2 ^ 53"
    and lo: "- 1074 \<le> u" and hi: "u \<le> 971"
  shows "to_double x = Finite x"
proof (cases "m = 0")
  case True
  with x show ?thesis by (simp add: to_double_def)
next
  case False
  have pos: "0 < \<bar>x\<bar>" using False x by simp
  define e where "e = \<lfloor>log 2 \<bar>x\<bar>\<rfloor>"
  have "(2::real) powr real_of_int e = 2 powi e"
    by (simp add: powr_real_of_int')
  then have lower: "2 powi e \<le> \<bar>x\<bar>"
    using floor_log_eq_powr_iff [of "\<bar>x\<bar>" 2 e] pos by (simp add: e_def)
  have "\<bar>x\<bar> = of_int \<bar>m\<bar> * 2 powi u" by (simp add: x abs_mult)
  also have "\<dots> < 2 ^ 53 * 2 powi u"
  proof (rule mult_strict_right_mono)
    from m have "real_of_int \<bar>m\<bar> < real_of_int (2 ^ 53)" by (simp only: of_int_less_iff)
    then show "real_of_int \<bar>m\<bar> < 2 ^ 53" by simp
  qed simp
  also have "\<dots> = 2 powi (53 + u)" by (simp add: power_int_add)
  finally have upper: "\<bar>x\<bar> < 2 powi (53 + u)" .
  with lower have "(2::real) powi e < 2 powi (53 + u)" by linarith
  then have "e < 53 + u" by (rule pow2_less_imp_less)
  define ue where "ue = ulp_exponent x"
  have ue: "ue \<le> u" using \<open>e < 53 + u\<close> lo by (simp add: ue_def ulp_exponent_def e_def)
  define k where "k = nat (u - ue)"
  have "(2::real) powi u = 2 powi (int k + ue)" using ue by (simp add: k_def)
  also have "\<dots> = 2 ^ k * 2 powi ue" by (simp add: power_int_add)
  finally have split: "(2::real) powi u = 2 ^ k * 2 powi ue" .
  have q: "x / 2 powi ue = of_int (m * 2 ^ k)" by (simp add: x split)
  have "of_int (round_even (x / 2 powi ue)) * 2 powi ue = of_int (m * 2 ^ k) * 2 powi ue"
    by (simp only: q round_even_of_int)
  also have "\<dots> = x" by (simp add: x split)
  finally have "of_int (round_even (x / 2 powi ue)) * 2 powi ue = x" .
  moreover have "\<not> overflow_threshold \<le> \<bar>x\<bar>"
  proof -
    have "(2::real) powi (53 + u) \<le> 2 powi 1024"
      using hi by (intro power_int_increasing) simp_all
    with upper show ?thesis by (simp add: overflow_threshold_def)
  qed
  ultimately show ?thesis
    using pos by (auto simp: to_double_def Let_def ue_def)
qed

lemma to_double_of_int: "\<bar>n\<bar> < 2 ^ 53 \<Longrightarrow> to_double (of_int n) = Finite (of_int n)"
  by (rule to_double_representable [where m = n and u = 0]) simp_all

lemma to_double_numeral [simp]:
  "(numeral k :: int) < 2 ^ 53 \<Longrightarrow> to_double (numeral k) = Finite (numeral k)"
  using to_double_of_int [of "numeral k"] by simp

lemma to_double_neg_numeral [simp]:
  "(numeral k :: int) < 2 ^ 53 \<Longrightarrow> to_double (- numeral k) = Finite (- numeral k)"
  using to_double_of_int [of "- numeral k"] by simp

lemma to_double_0 [simp]: "to_double 0 = Finite 0"
  by (simp add: to_double_def)

lemma to_double_1 [simp]: "to_double 1 = Finite 1"
  using to_double_of_int [of 1] by simp

lemma stored_eq: "to_double x = Finite y \<Longrightarrow> stored x = Finite y"
  by (simp add: stored_def)

lemma stored_numeral [simp]:
  "(numeral k :: int) < 2 ^ 53 \<Longrightarrow> stored (numeral k) = Finite (numeral k)"
  by (simp add: stored_def)

lemma stored_1 [simp]: "stored 1 = Finite 1"
  by (simp add: stored_def)

lemma fmul_NaN_right [simp]: "fmul x NaN = NaN"
  by (cases x) simp_all

lemma fadd_NaN_right [simp]: "fadd x NaN = NaN"
  by (cases x) simp_all

text \<open>The literals of \<^verbatim>\<open>area()\<close>: 0.25 is a double, 3.14159 is not.\<close>

lemma to_double_quarter: "to_double 0.25 = Finite 0.25"
  by (rule to_double_representable [where m = 1 and u = "- 2"]) simp_all

lemma to_double_3_14159: "to_double 3.14159 = Finite (3537115888337719 / 2 ^ 50)"
  by (subst to_double_eval [where e = 1 and u = "- 51"])
    (simp_all add: round_even_def overflow_threshold_def)

text \<open>Only \<^verbatim>\<open>Triangle::area\<close> can return not-a-number: a product of finite doubles is
  a double or an infinity, and in \<^verbatim>\<open>Circle::area\<close> an infinite first product is multiplied
  by a radius that is not zero.\<close>

lemma Rectangle_area_fp_not_NaN: "Rectangle_area_fp l w \<noteq> NaN"
  using stored_Finite [of l] stored_Finite [of w] by (auto simp: Rectangle_area_fp_def)

lemma to_double_Inf_nonzero: "to_double x = PlusInf \<or> to_double x = MinusInf \<Longrightarrow> x \<noteq> 0"
  by auto

lemma Circle_area_fp_not_NaN: "Circle_area_fp r \<noteq> NaN"
proof -
  obtain y where y: "stored r = Finite y" using stored_Finite by blast
  obtain c where c: "to_double 3.14159 = Finite c" using to_double_3_14159 by blast
  have eq: "Circle_area_fp r = fmul (to_double (c * y)) (Finite y)"
    by (simp only: Circle_area_fp_def c y fmul.simps)
  show ?thesis
  proof (cases "to_double (c * y)")
    case (Finite z)
    then show ?thesis by (simp add: eq)
  next
    case PlusInf
    then have "c * y \<noteq> 0" using to_double_Inf_nonzero by blast
    then have "y \<noteq> 0" by simp
    with PlusInf show ?thesis by (simp add: eq)
  next
    case MinusInf
    then have "c * y \<noteq> 0" using to_double_Inf_nonzero by blast
    then have "y \<noteq> 0" by simp
    with MinusInf show ?thesis by (simp add: eq)
  next
    case NaN
    then show ?thesis by simp
  qed
qed

lemma no_polygon_is_Circle: "as_Polygon s = None \<Longrightarrow> area_fp s \<noteq> NaN"
  by (cases s) (simp_all add: Circle_area_fp_not_NaN)

text \<open>The areas of the shapes used below, as the machine computes them.\<close>

lemma area_fp_Square_1: "area_fp (Square 1) = Finite 1"
  by (simp add: Square_def Rectangle_area_fp_def)

lemma area_fp_Square_2: "area_fp (Square 2) = Finite 4"
  by (simp add: Square_def Rectangle_area_fp_def)

lemma area_fp_Square_3: "area_fp (Square 3) = Finite 9"
  by (simp add: Square_def Rectangle_area_fp_def)

lemma area_fp_Rectangle_1_1: "area_fp (Rectangle 1 1) = Finite 1"
  by (simp add: Rectangle_def Rectangle_area_fp_def)

lemma area_fp_Rectangle_1_2: "area_fp (Rectangle 1 2) = Finite 2"
  by (simp add: Rectangle_def Rectangle_area_fp_def)

lemma area_fp_Rectangle_2_1: "area_fp (Rectangle 2 1) = Finite 2"
  by (simp add: Rectangle_def Rectangle_area_fp_def)

lemma area_fp_Circle_2: "area_fp (Circle 2) = Finite (3537115888337719 / 2 ^ 48)"
proof -
  have "to_double (3537115888337719 / 2 ^ 50 * 2) = Finite (3537115888337719 / 2 ^ 50 * 2)"
    by (rule to_double_representable [where m = 3537115888337719 and u = "- 49"]) simp_all
  moreover
  have "to_double (3537115888337719 / 2 ^ 50 * 2 * 2) = Finite (3537115888337719 / 2 ^ 50 * 2 * 2)"
    by (rule to_double_representable [where m = 3537115888337719 and u = "- 48"]) simp_all
  moreover have "to_double (314159 / 100000) = Finite (3537115888337719 / 2 ^ 50)"
    using to_double_3_14159 by simp
  ultimately show ?thesis
    by (simp add: Circle_def Circle_area_fp_def)
qed

lemma area_fp_Triangle_1_1_5: "area_fp (Triangle 1 1 5) = NaN"
  by (simp add: Triangle_def Triangle_area_fp_def fsub_def)

section \<open>The comparison of areas\<close>

lemma dless_irrefl: "\<not> dless x x"
  by (cases x) simp_all

lemma dless_trans: "dless x y \<Longrightarrow> dless y z \<Longrightarrow> dless x z"
  by (cases x; cases y; cases z) simp_all

lemma dless_equiv_trans:
  "y \<noteq> NaN \<Longrightarrow> \<not> dless x y \<Longrightarrow> \<not> dless y x \<Longrightarrow> \<not> dless y z \<Longrightarrow> \<not> dless z y \<Longrightarrow>
   \<not> dless x z \<and> \<not> dless z x"
  by (cases x; cases y; cases z) simp_all

lemma area_less_swo:
  assumes "\<forall>s\<in>S. area_fp s \<noteq> NaN"
  shows "strict_weak_ordering_on S area_less"
  unfolding strict_weak_ordering_on_def equiv_by_def area_less_def
proof (intro conjI ballI impI)
  fix x show "\<not> dless (area_fp x) (area_fp x)" by (rule dless_irrefl)
next
  fix x y z
  assume "dless (area_fp x) (area_fp y) \<and> dless (area_fp y) (area_fp z)"
  then show "dless (area_fp x) (area_fp z)" by (blast intro: dless_trans)
next
  fix x y z
  assume "y \<in> S"
    and "(\<not> dless (area_fp x) (area_fp y) \<and> \<not> dless (area_fp y) (area_fp x)) \<and>
         \<not> dless (area_fp y) (area_fp z) \<and> \<not> dless (area_fp z) (area_fp y)"
  with assms show "\<not> dless (area_fp x) (area_fp z)"
    using dless_equiv_trans [of "area_fp y" "area_fp x" "area_fp z"] by blast
next
  fix x y z
  assume "y \<in> S"
    and "(\<not> dless (area_fp x) (area_fp y) \<and> \<not> dless (area_fp y) (area_fp x)) \<and>
         \<not> dless (area_fp y) (area_fp z) \<and> \<not> dless (area_fp z) (area_fp y)"
  with assms show "\<not> dless (area_fp z) (area_fp x)"
    using dless_equiv_trans [of "area_fp y" "area_fp x" "area_fp z"] by blast
qed

lemma not_dless_dle: "x \<noteq> NaN \<Longrightarrow> y \<noteq> NaN \<Longrightarrow> \<not> dless y x \<Longrightarrow> dle x y"
  by (cases x; cases y) simp_all

lemma contract_perm_sorted:
  assumes "std_sort_contract srt" and "\<forall>s\<in>set xs. area_fp s \<noteq> NaN"
  shows "mset (srt area_less xs) = mset xs"
    and "sorted_wrt (\<lambda>x y. \<not> area_less y x) (srt area_less xs)"
  using assms area_less_swo [of "set xs"] unfolding std_sort_contract_def by blast+

text \<open>
  The comparison sees the rounded products. The square of 94906267 is 9007199515875289,
  which is no double: the machine's product is the double 9007199515875288, and a
  \<^verbatim>\<open>Square\<close> of that side and a \<^verbatim>\<open>Rectangle\<close> of length 9007199515875288 and width 1
  compare as equal. The doubles nearest to 0.3, 0.1 and 0.9 give the products
  \<open>6485183463413514 / 2 ^ 56\<close> and \<open>6485183463413515 / 2 ^ 56\<close>: a \<^verbatim>\<open>Square\<close> of side
  0.3 compares as less than a \<^verbatim>\<open>Rectangle\<close> of length 0.1 and width 0.9.
\<close>

lemma rounded_products_tie:
  "area_fp (Square 94906267) = Finite 9007199515875288"
  "area_fp (Rectangle 9007199515875288 1) = Finite 9007199515875288"
  "\<not> area_less (Square 94906267) (Rectangle 9007199515875288 1)"
  "\<not> area_less (Rectangle 9007199515875288 1) (Square 94906267)"
proof -
  have big: "to_double 9007199515875288 = Finite 9007199515875288"
    by (rule to_double_representable [where m = 4503599757937644 and u = 1]) simp_all
  have prod: "to_double 9007199515875289 = Finite 9007199515875288"
    by (subst to_double_eval [where e = 53 and u = 1])
      (simp_all add: round_even_def overflow_threshold_def)
  show s: "area_fp (Square 94906267) = Finite 9007199515875288"
    by (simp add: Square_def Rectangle_area_fp_def prod)
  show r: "area_fp (Rectangle 9007199515875288 1) = Finite 9007199515875288"
    by (simp add: Rectangle_def Rectangle_area_fp_def stored_eq [OF big] big)
  show "\<not> area_less (Square 94906267) (Rectangle 9007199515875288 1)"
    by (simp only: area_less_def s r dless_irrefl not_False_eq_True)
  show "\<not> area_less (Rectangle 9007199515875288 1) (Square 94906267)"
    by (simp only: area_less_def s r dless_irrefl not_False_eq_True)
qed

lemma rounded_products_differ:
  "area_fp (Square 0.3) = Finite (6485183463413514 / 2 ^ 56)"
  "area_fp (Rectangle 0.1 0.9) = Finite (6485183463413515 / 2 ^ 56)"
  "area_less (Square 0.3) (Rectangle 0.1 0.9)"
proof -
  have a: "to_double 0.3 = Finite (5404319552844595 / 2 ^ 54)"
    by (subst to_double_eval [where e = "- 2" and u = "- 54"])
      (simp_all add: round_even_def overflow_threshold_def)
  have b: "to_double 0.1 = Finite (7205759403792794 / 2 ^ 56)"
    by (subst to_double_eval [where e = "- 4" and u = "- 56"])
      (simp_all add: round_even_def overflow_threshold_def)
  have c: "to_double 0.9 = Finite (8106479329266893 / 2 ^ 53)"
    by (subst to_double_eval [where e = "- 1" and u = "- 53"])
      (simp_all add: round_even_def overflow_threshold_def)
  have aa: "to_double (5404319552844595 / 2 ^ 54 * (5404319552844595 / 2 ^ 54)) =
      Finite (6485183463413514 / 2 ^ 56)"
    by (subst to_double_eval [where e = "- 4" and u = "- 56"])
      (simp_all add: round_even_def overflow_threshold_def)
  have bc: "to_double (7205759403792794 / 2 ^ 56 * (8106479329266893 / 2 ^ 53)) =
      Finite (6485183463413515 / 2 ^ 56)"
    by (subst to_double_eval [where e = "- 4" and u = "- 56"])
      (simp_all add: round_even_def overflow_threshold_def)
  show s: "area_fp (Square 0.3) = Finite (6485183463413514 / 2 ^ 56)"
    by (simp only: Square_def area_fp.simps Rectangle_area_fp_def stored_eq [OF a] fmul.simps aa)
  show r: "area_fp (Rectangle 0.1 0.9) = Finite (6485183463413515 / 2 ^ 56)"
    by (simp only: Rectangle_def area_fp.simps Rectangle_area_fp_def stored_eq [OF b]
        stored_eq [OF c] fmul.simps bc)
  show "area_less (Square 0.3) (Rectangle 0.1 0.9)"
    by (simp add: area_less_def s r)
qed

lemma mset_pair_cases:
  assumes "mset ys = mset [a, b]"
  shows "ys = [a, b] \<or> ys = [b, a]"
proof -
  from assms have "length ys = 2" by (metis length_Cons list.size(3) mset_eq_length numeral_2_eq_2)
  then obtain u v where ys: "ys = [u, v]"
    by (metis (no_types) length_0_conv length_Suc_conv numeral_2_eq_2)
  with assms show ?thesis by (auto simp: add_eq_conv_ex)
qed

section \<open>Bounds on pi\<close>







section \<open>The GNU sort, step by step\<close>

lemma scan_up_step:
  "first < length xs \<Longrightarrow> cmp (xs ! first) (xs ! pivot) \<Longrightarrow>
   scan_up cmp xs pivot first = scan_up cmp xs pivot (Suc first)"
  by (subst scan_up.simps) simp

lemma scan_up_stop:
  "\<not> (first < length xs \<and> cmp (xs ! first) (xs ! pivot)) \<Longrightarrow>
   scan_up cmp xs pivot first = first"
  by (subst scan_up.simps) auto

lemma scan_down_step:
  "0 < last' \<Longrightarrow> cmp (xs ! pivot) (xs ! last') \<Longrightarrow>
   scan_down cmp xs pivot last' = scan_down cmp xs pivot (last' - 1)"
  by (subst scan_down.simps) simp

lemma scan_down_stop:
  "\<not> (0 < last' \<and> cmp (xs ! pivot) (xs ! last')) \<Longrightarrow>
   scan_down cmp xs pivot last' = last'"
  by (subst scan_down.simps) auto

lemma unguarded_partition_step:
  "scan_up cmp xs pivot first = f \<Longrightarrow> scan_down cmp xs pivot (last' - 1) = l \<Longrightarrow> f < l \<Longrightarrow>
   unguarded_partition cmp first last' pivot xs =
     unguarded_partition cmp (Suc f) l pivot (iter_swap f l xs)"
  by (subst unguarded_partition.simps) simp

lemma unguarded_partition_stop:
  "scan_up cmp xs pivot first = f \<Longrightarrow> scan_down cmp xs pivot (last' - 1) = l \<Longrightarrow> \<not> f < l \<Longrightarrow>
   unguarded_partition cmp first last' pivot xs = (f, xs)"
  by (subst unguarded_partition.simps) simp

lemma linear_insert_loop_step:
  "0 < last' \<Longrightarrow> cmp val (xs ! (last' - 1)) \<Longrightarrow>
   linear_insert_loop cmp val last' xs =
     linear_insert_loop cmp val (last' - 1) (xs[last' := xs ! (last' - 1)])"
  by (subst linear_insert_loop.simps) simp

lemma linear_insert_loop_stop:
  "\<not> (0 < last' \<and> cmp val (xs ! (last' - 1))) \<Longrightarrow>
   linear_insert_loop cmp val last' xs = xs[last' := val]"
  by (subst linear_insert_loop.simps) auto

lemma introsort_loop_unfold:
  "introsort_loop cmp d first last' xs =
     (if 16 < last' - first then
        (if d = 0 then partial_sort cmp first last' last' xs
         else (let (cut, ys) = unguarded_partition_pivot cmp first last' xs
               in introsort_loop cmp (d - 1) first cut (introsort_loop cmp (d - 1) cut last' ys)))
      else xs)"
  by (cases d) simp_all

lemma introsort_loop_short: "last' - first \<le> 16 \<Longrightarrow> introsort_loop cmp d first last' xs = xs"
  by (cases d) simp_all

lemma lg_20: "lg 20 = 4"
  by (simp add: lg.simps)

text \<open>
  Twenty elements that the comparison does not tell apart, the first of them \<open>a\<close> and
  the others all the same \<open>b\<close>. With every comparison false, the median of the elements
  at the indices 1, 10 and 19 is taken to be the one at index 10, which is swapped with
  the first element. The partition then exchanges the elements at the indices 1 and 19,
  2 and 18, and so on to 9 and 11, each time a \<open>b\<close> with a \<open>b\<close>, and cuts at 10. Both
  pieces have at most 16 elements, and the insertions move nothing. The element that
  came first ends at index 10.
\<close>

lemma gnu_sort_20_equivalent:
  assumes "\<not> cmp a a" "\<not> cmp a b" "\<not> cmp b a" "\<not> cmp b b"
  shows "gnu_sort cmp [a, b, b, b, b, b, b, b, b, b, b, b, b, b, b, b, b, b, b, b] =
    [b, b, b, b, b, b, b, b, b, b, a, b, b, b, b, b, b, b, b, b]"
proof -
  let ?xs = "[a, b, b, b, b, b, b, b, b, b, b, b, b, b, b, b, b, b, b, b]"
  let ?ys = "[b, b, b, b, b, b, b, b, b, b, a, b, b, b, b, b, b, b, b, b]"
  have median: "move_median_to_first cmp 0 (Suc 0) 10 19 ?xs = ?ys"
    using assms by (simp add: move_median_to_first_def iter_swap_def)
  have part: "unguarded_partition cmp (Suc 0) 20 0 ?ys = (10, ?ys)"
    using assms
    by (simp add: unguarded_partition_step unguarded_partition_stop scan_up_stop scan_down_stop
        iter_swap_def)
  have pivot: "unguarded_partition_pivot cmp 0 20 ?xs = (10, ?ys)"
    by (simp add: unguarded_partition_pivot_def median part)
  have loop: "introsort_loop cmp 8 0 20 ?xs = ?ys"
    by (subst introsort_loop_unfold) (simp add: pivot introsort_loop_short)
  have ins: "gnu_insertion_sort cmp 0 16 ?ys = ?ys"
    using assms
    by (simp add: gnu_insertion_sort_def unguarded_linear_insert_def linear_insert_loop_stop
        upt_conv_Cons)
  have ung: "unguarded_insertion_sort cmp 16 20 ?ys = ?ys"
    using assms
    by (simp add: unguarded_insertion_sort_def unguarded_linear_insert_def linear_insert_loop_stop
        upt_conv_Cons)
  have fin: "final_insertion_sort cmp 0 20 ?ys = ?ys"
    by (simp add: final_insertion_sort_def ins ung)
  have len: "length ?xs = 20" by simp
  show ?thesis
    unfolding gnu_sort_def len by (simp add: lg_20 loop fin)
qed

text \<open>Two elements: one comparison, of the second with the first, and they stay as they
  are when it is false.\<close>

lemma gnu_sort_2:
  assumes "\<not> cmp b a"
  shows "gnu_sort cmp [a, b] = [a, b]"
proof -
  have ins: "gnu_insertion_sort cmp 0 2 [a, b] = [a, b]"
    using assms
    by (simp add: gnu_insertion_sort_def unguarded_linear_insert_def linear_insert_loop_stop
        upt_conv_Cons)
  have len: "length [a, b] = 2" by simp
  show ?thesis
    unfolding gnu_sort_def len by (simp add: final_insertion_sort_def introsort_loop_short ins)
qed

text \<open>
  Four elements: only the insertions run. The second element \<open>t\<close> is compared with the
  first and stays; the third is less than the first and goes to the front; the last is
  compared with the first and then with \<open>t\<close> only, and stays behind \<open>t\<close> when that
  comparison is false, whatever stands before \<open>t\<close>.
\<close>

lemma gnu_sort_4:
  assumes "\<not> cmp t s2" "\<not> cmp r t" "cmp s1 s2" "\<not> cmp r s1"
  shows "gnu_sort cmp [s2, t, s1, r] = [s1, s2, t, r]"
proof -
  have ins: "gnu_insertion_sort cmp 0 4 [s2, t, s1, r] = [s1, s2, t, r]"
    using assms
    by (simp add: gnu_insertion_sort_def unguarded_linear_insert_def move_backward_def
        linear_insert_loop_stop upt_conv_Cons)
  have len: "length [s2, t, s1, r] = 4" by simp
  show ?thesis
    unfolding gnu_sort_def len by (simp add: final_insertion_sort_def introsort_loop_short ins)
qed

section \<open>The sort in main\<close>

text \<open>
  C1, as amended. \<^verbatim>\<open>main\<close> sorts with the library's \<^verbatim>\<open>sort\<close>, which is not a stable
  sort, and the comparison is \<^verbatim>\<open><\<close> on the doubles that \<^verbatim>\<open>area()\<close> returns. For every
  sort that meets the library's contract and every sequence of shapes none of whose
  areas, as the machine computes them, is not-a-number, the result is a rearrangement of
  the sequence in which these areas ascend. Nothing fixes the order in which shapes of
  equal area come out, and nothing is promised when an area is not a number.
\<close>

theorem sort_ascending_by_area:
  assumes "std_sort_contract srt" and "\<forall>s\<in>set xs. area_fp s \<noteq> NaN"
  shows "mset (srt area_less xs) = mset xs \<and>
         sorted_wrt (\<lambda>s t. dle (area_fp s) (area_fp t)) (srt area_less xs)"
proof -
  from contract_perm_sorted [OF assms]
  have m: "mset (srt area_less xs) = mset xs"
    and s: "sorted_wrt (\<lambda>x y. \<not> area_less y x) (srt area_less xs)" by simp_all
  from m have "set (srt area_less xs) = set xs" by (rule mset_eq_setD)
  with assms(2) have nn: "\<forall>s\<in>set (srt area_less xs). area_fp s \<noteq> NaN" by simp
  have "sorted_wrt (\<lambda>s t. dle (area_fp s) (area_fp t)) (srt area_less xs)"
    using s
  proof (rule sorted_wrt_mono_rel [rotated])
    fix x y
    assume "x \<in> set (srt area_less xs)" "y \<in> set (srt area_less xs)" "\<not> area_less y x"
    with nn show "dle (area_fp x) (area_fp y)" by (simp add: area_less_def not_dless_dle)
  qed
  with m show ?thesis by simp
qed

theorem sort_ascending_by_area_witness:
  "mset (insertion_sort area_less [Circle 2, Square 3, Rectangle 1 2]) =
     mset [Circle 2, Square 3, Rectangle 1 2] \<and>
   sorted_wrt (\<lambda>s t. dle (area_fp s) (area_fp t))
     (insertion_sort area_less [Circle 2, Square 3, Rectangle 1 2])"
  using sort_ascending_by_area
    [OF insertion_sort_contract, of "[Circle 2, Square 3, Rectangle 1 2]"]
  by (simp add: area_fp_Circle_2 area_fp_Square_3 area_fp_Rectangle_1_2)

text \<open>
  C1 as stated fails of the program built with the GNU C++ library, in both of its parts.

  The order of equal areas. On the file with the line \<^verbatim>\<open>S 1\<close> followed by nineteen lines
  \<^verbatim>\<open>R 1 1\<close>, twenty shapes of area 1, the \<^verbatim>\<open>Square\<close> of the first line is listed in the
  eleventh place, behind ten of the \<^verbatim>\<open>Rectangle\<close>s that follow it in the file. (The
  input has more than 16 lines: on a shorter one this library only inserts, and equal
  areas keep their order.)

  The ascending order. On the file with the lines \<^verbatim>\<open>S 2\<close>, \<^verbatim>\<open>T 1 1 5\<close>, \<^verbatim>\<open>S 1\<close> and
  \<^verbatim>\<open>R 2 1\<close> the area of the \<^verbatim>\<open>Triangle\<close>, whose sides violate the triangle inequality,
  is not a number, every comparison with it is false, and the \<^verbatim>\<open>Square\<close> of area 4 is
  listed before the \<^verbatim>\<open>Rectangle\<close> of area 2.
\<close>

theorem gnu_sort_neither_stable_nor_ascending:
  "cout (main gnu_sort (\<lambda>i. \<lparr>shapeType0 = CHR ''C'', a0 = 0, b0 = 0, c0 = 0\<rparr>)
     (Some [''S 1'', ''R 1 1'', ''R 1 1'', ''R 1 1'', ''R 1 1'', ''R 1 1'', ''R 1 1'',
            ''R 1 1'', ''R 1 1'', ''R 1 1'', ''R 1 1'', ''R 1 1'', ''R 1 1'', ''R 1 1'',
            ''R 1 1'', ''R 1 1'', ''R 1 1'', ''R 1 1'', ''R 1 1'', ''R 1 1''])) =
     [ShapeLine ''Rectangle'', ShapeLine ''Rectangle'', ShapeLine ''Rectangle'',
      ShapeLine ''Rectangle'', ShapeLine ''Rectangle'', ShapeLine ''Rectangle'',
      ShapeLine ''Rectangle'', ShapeLine ''Rectangle'', ShapeLine ''Rectangle'',
      ShapeLine ''Rectangle'', ShapeLine ''Square'', ShapeLine ''Rectangle'',
      ShapeLine ''Rectangle'', ShapeLine ''Rectangle'', ShapeLine ''Rectangle'',
      ShapeLine ''Rectangle'', ShapeLine ''Rectangle'', ShapeLine ''Rectangle'',
      ShapeLine ''Rectangle'', ShapeLine ''Rectangle'', BlankLine, TotalShapes 20,
      TotalPerimeter 80, TotalPolygons 20, AveragePolygonSides (Finite 4)] \<and>
   area_fp (Square 1) = Finite 1 \<and> area_fp (Rectangle 1 1) = Finite 1 \<and>
   \<not> stable_on area_less
       [Square 1, Rectangle 1 1, Rectangle 1 1, Rectangle 1 1, Rectangle 1 1, Rectangle 1 1,
        Rectangle 1 1, Rectangle 1 1, Rectangle 1 1, Rectangle 1 1, Rectangle 1 1,
        Rectangle 1 1, Rectangle 1 1, Rectangle 1 1, Rectangle 1 1, Rectangle 1 1,
        Rectangle 1 1, Rectangle 1 1, Rectangle 1 1, Rectangle 1 1]
       (gnu_sort area_less
         [Square 1, Rectangle 1 1, Rectangle 1 1, Rectangle 1 1, Rectangle 1 1, Rectangle 1 1,
          Rectangle 1 1, Rectangle 1 1, Rectangle 1 1, Rectangle 1 1, Rectangle 1 1,
          Rectangle 1 1, Rectangle 1 1, Rectangle 1 1, Rectangle 1 1, Rectangle 1 1,
          Rectangle 1 1, Rectangle 1 1, Rectangle 1 1, Rectangle 1 1]) \<and>
   cout (main gnu_sort (\<lambda>i. \<lparr>shapeType0 = CHR ''C'', a0 = 0, b0 = 0, c0 = 0\<rparr>)
     (Some [''S 2'', ''T 1 1 5'', ''S 1'', ''R 2 1''])) =
     [ShapeLine ''Square'', ShapeLine ''Square'', ShapeLine ''Triangle'',
      ShapeLine ''Rectangle'', BlankLine, TotalShapes 4, TotalPerimeter 25,
      TotalPolygons 4, AveragePolygonSides (Finite 3.75)] \<and>
   gnu_sort area_less [Square 2, Triangle 1 1 5, Square 1, Rectangle 2 1] =
     [Square 1, Square 2, Triangle 1 1 5, Rectangle 2 1] \<and>
   map area_fp [Square 1, Square 2, Triangle 1 1 5, Rectangle 2 1] =
     [Finite 1, Finite 4, NaN, Finite 2] \<and>
   \<not> sorted_wrt (\<lambda>s t. dle (area_fp s) (area_fp t))
       (gnu_sort area_less [Square 2, Triangle 1 1 5, Square 1, Rectangle 2 1])"
proof -
  let ?indet = "\<lambda>i::nat. \<lparr>shapeType0 = CHR ''C'', a0 = 0, b0 = 0, c0 = 0\<rparr>"
  let ?S = "Square 1" and ?R = "Rectangle 1 1"
  let ?xs = "[?S, ?R, ?R, ?R, ?R, ?R, ?R, ?R, ?R, ?R, ?R, ?R, ?R, ?R, ?R, ?R, ?R, ?R, ?R, ?R]"
  let ?ys = "[?R, ?R, ?R, ?R, ?R, ?R, ?R, ?R, ?R, ?R, ?S, ?R, ?R, ?R, ?R, ?R, ?R, ?R, ?R, ?R]"
  have cmp: "\<not> area_less ?S ?S" "\<not> area_less ?S ?R" "\<not> area_less ?R ?S" "\<not> area_less ?R ?R"
    by (simp_all add: area_less_def area_fp_Square_1 area_fp_Rectangle_1_1)
  have sorted20: "gnu_sort area_less ?xs = ?ys"
    using cmp by (rule gnu_sort_20_equivalent)
  have distinct: "?S \<noteq> ?R"
    by (simp add: Square_def Rectangle_def)
  have unstable: "\<not> stable_on area_less ?xs (gnu_sort area_less ?xs)"
    unfolding sorted20 using distinct by (simp add: stable_on_def equiv_by_def cmp)
  have loaded20: "getline_loop ?indet
      [''S 1'', ''R 1 1'', ''R 1 1'', ''R 1 1'', ''R 1 1'', ''R 1 1'', ''R 1 1'',
       ''R 1 1'', ''R 1 1'', ''R 1 1'', ''R 1 1'', ''R 1 1'', ''R 1 1'', ''R 1 1'',
       ''R 1 1'', ''R 1 1'', ''R 1 1'', ''R 1 1'', ''R 1 1'', ''R 1 1'']
      \<lparr>shapes = [], cerr = []\<rparr> = \<lparr>shapes = ?xs, cerr = []\<rparr>"
    by (simp add: loop_body_def lex_defs push_back_def)
  have out20: "cout (main gnu_sort ?indet
     (Some [''S 1'', ''R 1 1'', ''R 1 1'', ''R 1 1'', ''R 1 1'', ''R 1 1'', ''R 1 1'',
            ''R 1 1'', ''R 1 1'', ''R 1 1'', ''R 1 1'', ''R 1 1'', ''R 1 1'', ''R 1 1'',
            ''R 1 1'', ''R 1 1'', ''R 1 1'', ''R 1 1'', ''R 1 1'', ''R 1 1''])) =
     [ShapeLine ''Rectangle'', ShapeLine ''Rectangle'', ShapeLine ''Rectangle'',
      ShapeLine ''Rectangle'', ShapeLine ''Rectangle'', ShapeLine ''Rectangle'',
      ShapeLine ''Rectangle'', ShapeLine ''Rectangle'', ShapeLine ''Rectangle'',
      ShapeLine ''Rectangle'', ShapeLine ''Square'', ShapeLine ''Rectangle'',
      ShapeLine ''Rectangle'', ShapeLine ''Rectangle'', ShapeLine ''Rectangle'',
      ShapeLine ''Rectangle'', ShapeLine ''Rectangle'', ShapeLine ''Rectangle'',
      ShapeLine ''Rectangle'', ShapeLine ''Rectangle'', BlankLine, TotalShapes 20,
      TotalPerimeter 80, TotalPolygons 20, AveragePolygonSides (Finite 4)]"
    unfolding main_opened loaded20
    by (simp only: sorted20 Let_def loader.simps)
      (simp add: aggregate_def accumulate_def Square_def Rectangle_def
        Rectangle_perimeter_def ddiv_def)
  let ?zs = "[Square 2, Triangle 1 1 5, Square 1, Rectangle 2 1]"
  let ?ws = "[Square 1, Square 2, Triangle 1 1 5, Rectangle 2 1]"
  have areas: "map area_fp ?ws = [Finite 1, Finite 4, NaN, Finite 2]"
    by (simp add: area_fp_Square_1 area_fp_Square_2 area_fp_Triangle_1_1_5
        area_fp_Rectangle_2_1)
  have sorted4: "gnu_sort area_less ?zs = ?ws"
    by (rule gnu_sort_4)
      (simp_all add: area_less_def area_fp_Square_1 area_fp_Square_2 area_fp_Triangle_1_1_5
        area_fp_Rectangle_2_1)
  have disorder: "\<not> sorted_wrt (\<lambda>s t. dle (area_fp s) (area_fp t)) (gnu_sort area_less ?zs)"
    unfolding sorted4
    by (simp add: area_fp_Square_1 area_fp_Square_2 area_fp_Triangle_1_1_5
        area_fp_Rectangle_2_1)
  have loaded4: "getline_loop ?indet [''S 2'', ''T 1 1 5'', ''S 1'', ''R 2 1'']
      \<lparr>shapes = [], cerr = []\<rparr> = \<lparr>shapes = ?zs, cerr = []\<rparr>"
    by (simp add: loop_body_def lex_defs push_back_def)
  have out4: "cout (main gnu_sort ?indet (Some [''S 2'', ''T 1 1 5'', ''S 1'', ''R 2 1''])) =
     [ShapeLine ''Square'', ShapeLine ''Square'', ShapeLine ''Triangle'',
      ShapeLine ''Rectangle'', BlankLine, TotalShapes 4, TotalPerimeter 25,
      TotalPolygons 4, AveragePolygonSides (Finite 3.75)]"
    unfolding main_opened loaded4
    by (simp only: sorted4 Let_def loader.simps)
      (simp add: aggregate_def accumulate_def Square_def Rectangle_def Triangle_def
        Rectangle_perimeter_def Triangle_perimeter_def ddiv_def)
  from out20 unstable out4 sorted4 areas disorder area_fp_Square_1 area_fp_Rectangle_1_1
  show ?thesis by (simp only: simp_thms)
qed

section \<open>Circle\<close>




section \<open>No polygon\<close>

text \<open>
  C3. When the shapes read from the file hold no polygon, \<^verbatim>\<open>main\<close> still divides
  \<^verbatim>\<open>totalPolygonSides\<close> by \<^verbatim>\<open>totalPolygons\<close>, both zero, and the last line of the summary
  carries the result, which is not a number. In particular a file whose only line has
  the code \<open>X\<close> yields no shape: the summary shows 0 shapes, 0 polygons and the average
  that is not a number, one warning goes to the error stream, and the status is 0.
\<close>

theorem no_polygon_average_is_not_a_number:
  assumes "std_sort_contract srt"
  shows "(loadList indet (Some ls) [] = Inr st \<and> (\<forall>s\<in>set (shapes st). as_Polygon s = None) \<longrightarrow>
           last (cout (main srt indet (Some ls))) = AveragePolygonSides (ddiv 0 0) \<and>
           ddiv 0 0 = NaN) \<and>
         (dropWhile isspace line = CHR ''X'' # rest \<longrightarrow>
           main srt indet (Some [line]) =
             \<lparr>exit_status = 0,
              cout = [BlankLine, TotalShapes 0, TotalPerimeter 0, TotalPolygons 0,
                      AveragePolygonSides NaN],
              cerr_lines = [''Unknown shape: X'']\<rparr>)"
proof (intro conjI impI)
  assume a: "loadList indet (Some ls) [] = Inr st \<and> (\<forall>s\<in>set (shapes st). as_Polygon s = None)"
  then have st: "st = getline_loop indet ls \<lparr>shapes = [], cerr = []\<rparr>"
    by (simp add: loadList_def)
  from a have "\<forall>s\<in>set (shapes st). area_fp s \<noteq> NaN"
    using no_polygon_is_Circle by auto
  then have "mset (srt area_less (shapes st)) = mset (shapes st)"
    by (rule contract_perm_sorted [OF assms])
  then have "aggregate (srt area_less (shapes st)) = aggregate (shapes st)"
    by (rule aggregate_perm)
  moreover from a have "filter (\<lambda>s. as_Polygon s \<noteq> None) (shapes st) = []"
    by (simp add: filter_empty_conv)
  moreover have "sum_list (map (\<lambda>s. case as_Polygon s of None \<Rightarrow> 0 | Some n \<Rightarrow> real_of_int n)
      (shapes st)) = 0"
  proof -
    from a
    have "map (\<lambda>s. case as_Polygon s of None \<Rightarrow> 0 | Some n \<Rightarrow> real_of_int n) (shapes st) =
          map (\<lambda>s. 0) (shapes st)"
      by simp
    then show ?thesis by (simp only: sum_list_0)
  qed
  ultimately have "totalPolygons (aggregate (srt area_less (shapes st))) = 0"
    and "totalPolygonSides (aggregate (srt area_less (shapes st))) = 0"
    using fold_accumulate [of "shapes st"] by (simp_all add: aggregate_def)
  then show "last (cout (main srt indet (Some ls))) = AveragePolygonSides (ddiv 0 0)"
    by (simp add: main_opened st [symmetric] Let_def)
next
  show "ddiv 0 0 = NaN" by (simp add: ddiv_def)
next
  assume "dropWhile isspace line = CHR ''X'' # rest"
  then have lb: "loop_body (indet 0) line \<lparr>shapes = [], cerr = []\<rparr> =
      \<lparr>shapes = [], cerr = [''Unknown shape: X'']\<rparr>"
    by (simp add: loop_body_default)
  have "strict_weak_ordering_on (set ([] :: shape list)) area_less"
    by (simp add: strict_weak_ordering_on_def)
  with assms have "mset (srt area_less []) = mset ([] :: shape list)"
    unfolding std_sort_contract_def by blast
  then have "srt area_less [] = []" by simp
  with lb show "main srt indet (Some [line]) =
             \<lparr>exit_status = 0,
              cout = [BlankLine, TotalShapes 0, TotalPerimeter 0, TotalPolygons 0,
                      AveragePolygonSides NaN],
              cerr_lines = [''Unknown shape: X'']\<rparr>"
    by (simp add: main_opened aggregate_def ddiv_def)
qed

theorem no_polygon_average_is_not_a_number_witness:
  "last (cout (main insertion_sort (\<lambda>i. \<lparr>shapeType0 = CHR ''T'', a0 = 1, b0 = 1, c0 = 1\<rparr>)
     (Some [''C 2'', ''C 1'']))) = AveragePolygonSides NaN \<and>
   main insertion_sort (\<lambda>i. \<lparr>shapeType0 = CHR ''T'', a0 = 1, b0 = 1, c0 = 1\<rparr>)
     (Some [''X 1 2'']) =
     \<lparr>exit_status = 0,
      cout = [BlankLine, TotalShapes 0, TotalPerimeter 0, TotalPolygons 0,
              AveragePolygonSides NaN],
      cerr_lines = [''Unknown shape: X'']\<rparr>"
  using no_polygon_average_is_not_a_number
    [OF insertion_sort_contract,
     of "\<lambda>i. \<lparr>shapeType0 = CHR ''T'', a0 = 1, b0 = 1, c0 = 1\<rparr>" "[''C 2'', ''C 1'']"
        "\<lparr>shapes = [Circle 2, Circle 1], cerr = []\<rparr>" "''X 1 2''" "'' 1 2''"]
  by (simp add: loadList_def loop_body_def lex_defs push_back_def Circle_def)

section \<open>The aggregation pass of main\<close>



section \<open>Rectangle and Square\<close>

text \<open>
  C5. A \<^verbatim>\<open>Square\<close> of side \<open>s\<close> has the area and the perimeter of the \<^verbatim>\<open>Rectangle\<close> of
  length \<open>s\<close> and width \<open>s\<close>, and a \<^verbatim>\<open>Rectangle\<close> of length \<open>l\<close> and width \<open>w\<close> has area
  \<open>l * w\<close> and perimeter \<open>2 * (l + w)\<close>.
\<close>

theorem Square_is_Rectangle_of_equal_sides:
  "area (Square s) = area (Rectangle s s) \<and>
   perimeter (Square s) = perimeter (Rectangle s s) \<and>
   area (Rectangle l w) = Finite (l * w) \<and>
   perimeter (Rectangle l w) = 2 * (l + w)"
  by (simp add: Square_def Rectangle_def Rectangle_area_def Rectangle_perimeter_def)

theorem Square_is_Rectangle_of_equal_sides_witness:
  "area (Square 3) = area (Rectangle 3 3) \<and>
   perimeter (Square 3) = perimeter (Rectangle 3 3) \<and>
   area (Rectangle 2 5) = Finite 10 \<and>
   perimeter (Rectangle 2 5) = 14"
  using Square_is_Rectangle_of_equal_sides [of 3 2 5] by simp

section \<open>The scenario of two lines\<close>

text \<open>
  C6. For the file with the lines \<^verbatim>\<open>C 2\<close> and \<^verbatim>\<open>S 3\<close>, with every sort that meets the
  library's contract, the program lists the \<^verbatim>\<open>Square\<close> (area 9) before the \<^verbatim>\<open>Circle\<close>
  (area 12.56636, which is 12.566 to three decimals) and prints 2 shapes, the total
  perimeter 24.56636 (24.566 to three decimals), 1 polygon and 4 sides on average.
\<close>

theorem scenario_circle_2_square_3:
  assumes "std_sort_contract srt"
  shows "main srt indet (Some [''C 2'', ''S 3'']) =
           \<lparr>exit_status = 0,
            cout = [ShapeLine ''Square'', ShapeLine ''Circle'', BlankLine, TotalShapes 2,
                    TotalPerimeter 24.56636, TotalPolygons 1, AveragePolygonSides (Finite 4)],
            cerr_lines = []\<rparr> \<and>
         area (Square 3) = Finite 9 \<and> area (Circle 2) = Finite 12.56636 \<and>
         \<bar>12.56636 - 12.566 :: real\<bar> < 0.0005 \<and> \<bar>24.56636 - 24.566 :: real\<bar> < 0.0005"
proof -
  have loaded: "getline_loop indet [''C 2'', ''S 3''] \<lparr>shapes = [], cerr = []\<rparr> =
      \<lparr>shapes = [Circle 2, Square 3], cerr = []\<rparr>"
    by (simp add: loop_body_def lex_defs push_back_def)
  have areas: "area (Square 3) = Finite 9" "area (Circle 2) = Finite 12.56636"
    by (simp_all add: Square_def Circle_def Rectangle_area_def Circle_area_def)
  have "\<forall>s\<in>set [Circle 2, Square 3]. area_fp s \<noteq> NaN"
    by (simp add: area_fp_Circle_2 area_fp_Square_3)
  from contract_perm_sorted [OF assms this]
  have m: "mset (srt area_less [Circle 2, Square 3]) = mset [Circle 2, Square 3]"
    and s: "sorted_wrt (\<lambda>x y. \<not> area_less y x) (srt area_less [Circle 2, Square 3])"
    by simp_all
  from mset_pair_cases [OF m] s
  have ys: "srt area_less [Circle 2, Square 3] = [Square 3, Circle 2]"
    by (auto simp: area_less_def area_fp_Circle_2 area_fp_Square_3)
  have "main srt indet (Some [''C 2'', ''S 3'']) =
           \<lparr>exit_status = 0,
            cout = [ShapeLine ''Square'', ShapeLine ''Circle'', BlankLine, TotalShapes 2,
                    TotalPerimeter 24.56636, TotalPolygons 1, AveragePolygonSides (Finite 4)],
            cerr_lines = []\<rparr>"
    unfolding main_opened loaded
    by (simp only: ys Let_def loader.simps)
      (simp add: aggregate_def accumulate_def Square_def Circle_def Circle_perimeter_def
        Rectangle_perimeter_def ddiv_def)
  with areas show ?thesis by simp
qed

theorem scenario_circle_2_square_3_witness:
  "cout (main insertion_sort (\<lambda>i. \<lparr>shapeType0 = CHR ''T'', a0 = 1, b0 = 1, c0 = 1\<rparr>)
     (Some [''C 2'', ''S 3''])) =
     [ShapeLine ''Square'', ShapeLine ''Circle'', BlankLine, TotalShapes 2,
      TotalPerimeter 24.56636, TotalPolygons 1, AveragePolygonSides (Finite 4)]"
  using scenario_circle_2_square_3
    [OF insertion_sort_contract, of "\<lambda>i. \<lparr>shapeType0 = CHR ''T'', a0 = 1, b0 = 1, c0 = 1\<rparr>"]
  by simp

section \<open>Unrecognised codes\<close>

text \<open>
  C7. A line whose first character after leading white space is none of \<open>C\<close>, \<open>T\<close>, \<open>R\<close>,
  \<open>S\<close> adds one line to the error stream, \<^verbatim>\<open>Unknown shape: \<close> and the character, and
  leaves the vector of shapes as it was. Wherever the line stands in the file, the loop
  goes on with the lines after it from that state. The status of the process is 0 for
  every file that can be opened, whatever its lines.
\<close>

theorem unknown_code_is_skipped:
  assumes "dropWhile isspace line = ch # rest"
    and "ch \<notin> {CHR ''C'', CHR ''T'', CHR ''R'', CHR ''S''}"
  shows "loop_body u line st = st\<lparr>cerr := cerr st @ [''Unknown shape: '' @ [ch]]\<rparr> \<and>
         getline_loop indet (before @ line # after) st =
           getline_loop (\<lambda>i. indet (Suc (i + length before))) after
             ((getline_loop indet before st)
                \<lparr>cerr := cerr (getline_loop indet before st) @ [''Unknown shape: '' @ [ch]]\<rparr>) \<and>
         exit_status (main srt indet (Some (before @ line # after))) = 0"
proof -
  from assms(2)
  have ne: "ch \<noteq> CHR ''C''" "ch \<noteq> CHR ''T''" "ch \<noteq> CHR ''R''" "ch \<noteq> CHR ''S''"
    by auto
  have step: "loop_body v line s = s\<lparr>cerr := cerr s @ [''Unknown shape: '' @ [ch]]\<rparr>" for v s
    using assms(1) ne by (rule loop_body_default)
  show ?thesis
    by (simp add: step getline_loop_append exit_status_opened)
qed

theorem unknown_code_is_skipped_witness:
  "getline_loop (\<lambda>i. \<lparr>shapeType0 = CHR ''T'', a0 = 1, b0 = 1, c0 = 1\<rparr>)
     [''C 2'', '' X 1 2'', ''S 3''] \<lparr>shapes = [], cerr = []\<rparr> =
     \<lparr>shapes = [Circle 2, Square 3], cerr = [''Unknown shape: X'']\<rparr> \<and>
   exit_status (main insertion_sort (\<lambda>i. \<lparr>shapeType0 = CHR ''T'', a0 = 1, b0 = 1, c0 = 1\<rparr>)
     (Some [''C 2'', '' X 1 2'', ''S 3''])) = 0"
  using unknown_code_is_skipped
    [of "'' X 1 2''" "CHR ''X''" "'' 1 2''"
        "\<lparr>shapeType0 = CHR ''T'', a0 = 1, b0 = 1, c0 = 1\<rparr>" "\<lparr>shapes = [], cerr = []\<rparr>"
        "\<lambda>i. \<lparr>shapeType0 = CHR ''T'', a0 = 1, b0 = 1, c0 = 1\<rparr>" "[''C 2'']" "[''S 3'']"
        insertion_sort]
  by (simp add: loop_body_def lex_defs push_back_def)

section \<open>A file that cannot be opened\<close>

text \<open>
  C8. When the file cannot be opened the process ends at once with the status
  \<^verbatim>\<open>EXIT_FAILURE\<close>, which is not zero, and nothing has been written to standard output
  (nor to the error stream). Nothing else ends the run early: for every file that can be
  opened, \<^verbatim>\<open>main\<close> returns 0 after printing the blank line and the four lines of the
  summary.
\<close>

theorem only_open_failure_aborts:
  "main srt indet None = \<lparr>exit_status = EXIT_FAILURE, cout = [], cerr_lines = []\<rparr> \<and>
   EXIT_FAILURE \<noteq> 0 \<and>
   exit_status (main srt indet (Some ls)) = 0 \<and>
   (\<exists>names n p k avg. cout (main srt indet (Some ls)) =
      names @ [BlankLine, TotalShapes n, TotalPerimeter p, TotalPolygons k,
               AveragePolygonSides avg])"
  using cout_opened [of srt indet ls]
  by (simp add: main_not_opened exit_status_opened EXIT_FAILURE_def)

theorem only_open_failure_aborts_witness:
  "main insertion_sort (\<lambda>i. \<lparr>shapeType0 = CHR ''C'', a0 = 1, b0 = 1, c0 = 1\<rparr>) None =
     \<lparr>exit_status = 1, cout = [], cerr_lines = []\<rparr> \<and>
   exit_status (main insertion_sort (\<lambda>i. \<lparr>shapeType0 = CHR ''C'', a0 = 1, b0 = 1, c0 = 1\<rparr>)
     (Some [''T 1 1 5'', [], ''q''])) = 0"
  using only_open_failure_aborts
    [of insertion_sort "\<lambda>i. \<lparr>shapeType0 = CHR ''C'', a0 = 1, b0 = 1, c0 = 1\<rparr>"
        "[''T 1 1 5'', [], ''q'']"]
  by (simp add: EXIT_FAILURE_def)

section \<open>Lines with too few numbers\<close>

text \<open>
  C9. A line with a recognised code always appends one shape and writes no warning,
  however many numbers follow the code. The shape is built from \<^verbatim>\<open>a\<close>, \<^verbatim>\<open>b\<close> and
  \<^verbatim>\<open>c\<close> as the reads leave them: a read that succeeds leaves the number it parsed; a
  read that finds the line exhausted, or the stream already failed, leaves the variable
  with the value it held before; a read that meets characters that make no number
  leaves 0, and after a failed read every later variable keeps the value it held before.
\<close>

theorem short_line_still_appends_shape:
  assumes "dropWhile isspace line = ch # rest"
    and "ch \<in> {CHR ''C'', CHR ''T'', CHR ''R'', CHR ''S''}"
  shows "\<exists>a ss1 b ss2 c ss3.
           extract_double \<lparr>chars = rest, failbit = False, eofbit = False\<rparr> (a0 u) = (a, ss1) \<and>
           extract_double ss1 (b0 u) = (b, ss2) \<and>
           extract_double ss2 (c0 u) = (c, ss3) \<and>
           loop_body u line st =
             push_back (if ch = CHR ''C'' then Circle a
                        else if ch = CHR ''T'' then Triangle a b c
                        else if ch = CHR ''R'' then Rectangle a b
                        else Square a) st \<and>
           length (shapes (loop_body u line st)) = Suc (length (shapes st)) \<and>
           cerr (loop_body u line st) = cerr st \<and>
           (at_end \<lparr>chars = rest, failbit = False, eofbit = False\<rparr> \<longrightarrow> a = a0 u) \<and>
           (at_end ss1 \<longrightarrow> b = b0 u) \<and>
           (at_end ss2 \<longrightarrow> c = c0 u) \<and>
           (failbit ss1 \<longrightarrow> (a = a0 u \<or> a = 0) \<and> b = b0 u \<and> c = c0 u) \<and>
           (failbit ss2 \<longrightarrow> (b = b0 u \<or> b = 0) \<and> c = c0 u) \<and>
           (failbit ss3 \<longrightarrow> c = c0 u \<or> c = 0) \<and>
           (\<not> failbit ss1 \<longrightarrow> fst (num_get (dropWhile isspace rest)) = Some a) \<and>
           (\<not> failbit ss2 \<longrightarrow> fst (num_get (dropWhile isspace (chars ss1))) = Some b) \<and>
           (\<not> failbit ss3 \<longrightarrow> fst (num_get (dropWhile isspace (chars ss2))) = Some c)"
proof -
  let ?ss = "\<lparr>chars = rest, failbit = False, eofbit = False\<rparr>"
  obtain a ss1 where r1: "extract_double ?ss (a0 u) = (a, ss1)"
    by (cases "extract_double ?ss (a0 u)")
  obtain b ss2 where r2: "extract_double ss1 (b0 u) = (b, ss2)"
    by (cases "extract_double ss1 (b0 u)")
  obtain c ss3 where r3: "extract_double ss2 (c0 u) = (c, ss3)"
    by (cases "extract_double ss2 (c0 u)")
  have lb: "loop_body u line st =
             push_back (if ch = CHR ''C'' then Circle a
                        else if ch = CHR ''T'' then Triangle a b c
                        else if ch = CHR ''R'' then Rectangle a b
                        else Square a) st"
    using assms r1 r2 r3 by (rule loop_body_code)
  have e1: "at_end ?ss \<longrightarrow> a = a0 u"
    using extract_double_at_end [of ?ss "a0 u"] r1 by simp
  have e2: "at_end ss1 \<longrightarrow> b = b0 u \<and> failbit ss2"
    using extract_double_at_end [of ss1 "b0 u"] r2 by simp
  have e3: "at_end ss2 \<longrightarrow> c = c0 u"
    using extract_double_at_end [of ss2 "c0 u"] r3 by simp
  have f1: "failbit ss1 \<longrightarrow> a = a0 u \<or> a = 0"
    using extract_double_failed [of ?ss "a0 u"] r1 by simp
  have f2: "failbit ss2 \<longrightarrow> b = b0 u \<or> b = 0"
    using extract_double_failed [of ss1 "b0 u"] r2 by simp
  have f3: "failbit ss3 \<longrightarrow> c = c0 u \<or> c = 0"
    using extract_double_failed [of ss2 "c0 u"] r3 by simp
  have n1: "\<not> failbit ss1 \<longrightarrow> fst (num_get (dropWhile isspace rest)) = Some a"
    using extract_double_read [of ?ss "a0 u"] r1 by simp
  have n2: "\<not> failbit ss2 \<longrightarrow> fst (num_get (dropWhile isspace (chars ss1))) = Some b"
    using extract_double_read [of ss1 "b0 u"] r2 by simp
  have n3: "\<not> failbit ss3 \<longrightarrow> fst (num_get (dropWhile isspace (chars ss2))) = Some c"
    using extract_double_read [of ss2 "c0 u"] r3 by simp
  from e2 e3 have g1: "failbit ss1 \<longrightarrow> b = b0 u \<and> c = c0 u"
    by (blast intro: failbit_at_end)
  from e3 have g2: "failbit ss2 \<longrightarrow> c = c0 u"
    by (blast intro: failbit_at_end)
  have len: "length (shapes (loop_body u line st)) = Suc (length (shapes st))"
    and err: "cerr (loop_body u line st) = cerr st"
    by (simp_all add: lb push_back_def)
  from r1 r2 r3 lb len err e1 e2 e3 f1 f2 f3 g1 g2 n1 n2 n3 show ?thesis by blast
qed

theorem short_line_still_appends_shape_witness:
  "loop_body \<lparr>shapeType0 = CHR ''X'', a0 = 7, b0 = 8, c0 = 9\<rparr> ''R 3''
     \<lparr>shapes = [Circle 1], cerr = []\<rparr> =
     \<lparr>shapes = [Circle 1, Rectangle 3 8], cerr = []\<rparr> \<and>
   loop_body \<lparr>shapeType0 = CHR ''X'', a0 = 7, b0 = 8, c0 = 9\<rparr> ''T 1 x 5''
     \<lparr>shapes = [Circle 1], cerr = []\<rparr> =
     \<lparr>shapes = [Circle 1, Triangle 1 0 9], cerr = []\<rparr> \<and>
   loop_body \<lparr>shapeType0 = CHR ''X'', a0 = 7, b0 = 8, c0 = 9\<rparr> ''S''
     \<lparr>shapes = [Circle 1], cerr = []\<rparr> =
     \<lparr>shapes = [Circle 1, Square 7], cerr = []\<rparr>"
  using short_line_still_appends_shape
    [of "''R 3''" "CHR ''R''" "'' 3''" "\<lparr>shapeType0 = CHR ''X'', a0 = 7, b0 = 8, c0 = 9\<rparr>"
        "\<lparr>shapes = [Circle 1], cerr = []\<rparr>"]
  by (simp add: loop_body_def lex_defs push_back_def)

section \<open>Lowercase codes\<close>

text \<open>
  C10. The codes are matched as written, in upper case. A line that starts with \<open>c\<close>,
  \<open>r\<close>, \<open>s\<close> or \<open>t\<close> takes the \<^verbatim>\<open>default\<close> branch: no shape is appended and the warning
  for that character is written to the error stream.
\<close>

theorem lowercase_code_is_unknown:
  assumes "ch \<in> {CHR ''c'', CHR ''r'', CHR ''s'', CHR ''t''}"
  shows "shapes (loop_body u (ch # rest) st) = shapes st \<and>
         cerr (loop_body u (ch # rest) st) = cerr st @ [''Unknown shape: '' @ [ch]]"
proof -
  from assms have "dropWhile isspace (ch # rest) = ch # rest"
    by (simp add: not_isspace_lowercase)
  moreover from assms
  have "ch \<noteq> CHR ''C''" "ch \<noteq> CHR ''T''" "ch \<noteq> CHR ''R''" "ch \<noteq> CHR ''S''"
    by auto
  ultimately
  have "loop_body u (ch # rest) st = st\<lparr>cerr := cerr st @ [''Unknown shape: '' @ [ch]]\<rparr>"
    by (rule loop_body_default)
  then show ?thesis by simp
qed

theorem lowercase_code_is_unknown_witness:
  "shapes (loop_body \<lparr>shapeType0 = CHR ''C'', a0 = 1, b0 = 2, c0 = 3\<rparr> ''c 2''
     \<lparr>shapes = [Square 1], cerr = []\<rparr>) = [Square 1] \<and>
   cerr (loop_body \<lparr>shapeType0 = CHR ''C'', a0 = 1, b0 = 2, c0 = 3\<rparr> ''c 2''
     \<lparr>shapes = [Square 1], cerr = []\<rparr>) = [''Unknown shape: c'']"
  using lowercase_code_is_unknown
    [of "CHR ''c''" "\<lparr>shapeType0 = CHR ''C'', a0 = 1, b0 = 2, c0 = 3\<rparr>" "'' 2''"
        "\<lparr>shapes = [Square 1], cerr = []\<rparr>"]
  by simp

end
